theory Spec2Isabelle
  imports Complex_Main "HOL-Library.Sublist"
begin

section \<open>Python strings\<close>

text \<open>
  A Python \<open>str\<close> is a sequence of Unicode code points, and \<open>len\<close> counts code points;
  a string is therefore modelled as a list of code points (natural numbers).  The
  character tables below (white space, digits, word characters, lower case, NFKD
  decomposition) are those of Python 3.11 for the code points U+0000 to U+00FF, which
  cover French and English text; a code point above U+00FF is treated as a caseless
  symbol without decomposition that belongs to no class.
\<close>

type_synonym pystr = "nat list"

definition u :: "string \<Rightarrow> pystr" where
  "u s = map of_char s"

definition is_space :: "nat \<Rightarrow> bool" where
  "is_space c = ((9 \<le> c \<and> c \<le> 13) \<or> (28 \<le> c \<and> c \<le> 32) \<or> c = 133 \<or> c = 160)"

definition is_digit :: "nat \<Rightarrow> bool" where
  "is_digit c = (48 \<le> c \<and> c \<le> 57)"

definition is_word :: "nat \<Rightarrow> bool" where
  "is_word c = ((48 \<le> c \<and> c \<le> 57) \<or> (65 \<le> c \<and> c \<le> 90) \<or> c = 95 \<or> (97 \<le> c \<and> c \<le> 122)
     \<or> c = 170 \<or> c = 178 \<or> c = 179 \<or> c = 181 \<or> c = 185 \<or> c = 186
     \<or> (188 \<le> c \<and> c \<le> 190) \<or> (192 \<le> c \<and> c \<le> 214) \<or> (216 \<le> c \<and> c \<le> 246)
     \<or> (248 \<le> c \<and> c \<le> 255))"

definition lower_cp :: "nat \<Rightarrow> nat" where
  "lower_cp c = (if (65 \<le> c \<and> c \<le> 90) \<or> (192 \<le> c \<and> c \<le> 214) \<or> (216 \<le> c \<and> c \<le> 222)
                 then c + 32 else c)"

text \<open>\<open>str.lower()\<close>.\<close>

definition py_lower :: "pystr \<Rightarrow> pystr" where
  "py_lower s = map lower_cp s"

text \<open>\<open>str.strip()\<close>: white space removed at both ends.\<close>

definition py_strip :: "pystr \<Rightarrow> pystr" where
  "py_strip s = rev (dropWhile is_space (rev (dropWhile is_space s)))"

text \<open>\<open>sub in s\<close> and \<open>s.find(sub)\<close>.\<close>

fun starts_with :: "pystr \<Rightarrow> pystr \<Rightarrow> bool" where
  "starts_with [] s = True"
| "starts_with (x # xs) [] = False"
| "starts_with (x # xs) (y # ys) = (x = y \<and> starts_with xs ys)"

fun py_in :: "pystr \<Rightarrow> pystr \<Rightarrow> bool" where
  "py_in sub [] = (sub = [])"
| "py_in sub (y # ys) = (starts_with sub (y # ys) \<or> py_in sub ys)"

fun py_find :: "pystr \<Rightarrow> pystr \<Rightarrow> nat option" where
  "py_find sub [] = (if sub = [] then Some 0 else None)"
| "py_find sub (y # ys) =
     (if starts_with sub (y # ys) then Some 0 else map_option Suc (py_find sub ys))"

text \<open>\<open>sep.join(xs)\<close>.\<close>

fun py_join :: "pystr \<Rightarrow> pystr list \<Rightarrow> pystr" where
  "py_join sep [] = []"
| "py_join sep [x] = x"
| "py_join sep (x # y # ys) = x @ sep @ py_join sep (y # ys)"

text \<open>
  \<open>_strip_accents\<close>: NFKD decomposition, then every combining mark (category Mn) is
  dropped.  The table gives the result for each code point up to U+00FF that the
  function changes.
\<close>

definition nfkd_no_marks :: "nat \<Rightarrow> pystr" where
  "nfkd_no_marks c =
    (if c = 160 \<or> c = 168 \<or> c = 175 \<or> c = 180 \<or> c = 184 then [32]
     else if c = 170 then [97] else if c = 186 then [111]
     else if c = 178 then [50] else if c = 179 then [51] else if c = 185 then [49]
     else if c = 181 then [956]
     else if c = 188 then [49, 8260, 52] else if c = 189 then [49, 8260, 50]
     else if c = 190 then [51, 8260, 52]
     else if 192 \<le> c \<and> c \<le> 197 then [65] else if c = 199 then [67]
     else if 200 \<le> c \<and> c \<le> 203 then [69] else if 204 \<le> c \<and> c \<le> 207 then [73]
     else if c = 209 then [78] else if 210 \<le> c \<and> c \<le> 214 then [79]
     else if 217 \<le> c \<and> c \<le> 220 then [85] else if c = 221 then [89]
     else if 224 \<le> c \<and> c \<le> 229 then [97] else if c = 231 then [99]
     else if 232 \<le> c \<and> c \<le> 235 then [101] else if 236 \<le> c \<and> c \<le> 239 then [105]
     else if c = 241 then [110] else if 242 \<le> c \<and> c \<le> 246 then [111]
     else if 249 \<le> c \<and> c \<le> 252 then [117] else if c = 253 \<or> c = 255 then [121]
     else [c])"

definition strip_accents :: "pystr \<Rightarrow> pystr" where
  "strip_accents s = concat (map nfkd_no_marks s)"

section \<open>Regular expressions\<close>

text \<open>
  The patterns of the converter are matched by Python's \<open>re\<close>, a backtracking matcher:
  alternatives are tried from left to right, \<open>?\<close>, \<open>*\<close> and \<open>+\<close> take as much as they
  can first (\<open>+?\<close> as little), and the first path that reaches the end of the pattern is
  the match.  Every repetition in the converter's patterns is over a single character
  class, never empty, which is what \<open>Star\<close>, \<open>Plus\<close> and \<open>PlusLazy\<close> offer.
\<close>

datatype citem = CDigit | CSpace | CWord | CCh nat

datatype atom = In "citem list" | NotIn "citem list" | Dot

datatype rx =
    A atom
  | Lit pystr
  | Seq rx rx
  | Alt rx rx
  | Opt rx
  | Star atom
  | Plus atom
  | PlusLazy atom
  | Grp nat rx
  | Bol
  | Eol
  | Wb
  | Eps

text \<open>With \<open>re.IGNORECASE\<close> (\<open>ic\<close>) two characters agree when their lower cases do.\<close>

definition ch_eq :: "bool \<Rightarrow> nat \<Rightarrow> nat \<Rightarrow> bool" where
  "ch_eq ic x c = (if ic then lower_cp x = lower_cp c else x = c)"

fun citem_ok :: "bool \<Rightarrow> citem \<Rightarrow> nat \<Rightarrow> bool" where
  "citem_ok ic CDigit c = is_digit c"
| "citem_ok ic CSpace c = is_space c"
| "citem_ok ic CWord c = is_word c"
| "citem_ok ic (CCh x) c = ch_eq ic x c"

fun atom_ok :: "bool \<Rightarrow> atom \<Rightarrow> nat \<Rightarrow> bool" where
  "atom_ok ic (In its) c = list_ex (\<lambda>it. citem_ok ic it c) its"
| "atom_ok ic (NotIn its) c = (\<not> list_ex (\<lambda>it. citem_ok ic it c) its)"
| "atom_ok ic Dot c = (c \<noteq> 10)"

text \<open>
  The matcher is written in continuation-passing style.  Its state is the character
  before the current position (\<open>None\<close> at the start of the text), the rest of the text and
  the groups captured so far; the continuation \<open>k\<close> is the rest of the pattern.  A
  result \<open>None\<close> makes the caller backtrack.
\<close>

type_synonym caps = "nat \<Rightarrow> pystr option"

fun lit_m :: "bool \<Rightarrow> pystr \<Rightarrow> nat option \<Rightarrow> pystr \<Rightarrow> (nat option \<times> pystr) option" where
  "lit_m ic [] p s = Some (p, s)"
| "lit_m ic (x # xs) p [] = None"
| "lit_m ic (x # xs) p (y # ys) = (if ch_eq ic x y then lit_m ic xs (Some y) ys else None)"

fun star_greedy ::
  "bool \<Rightarrow> atom \<Rightarrow> nat option \<Rightarrow> pystr \<Rightarrow> caps \<Rightarrow> (nat option \<Rightarrow> pystr \<Rightarrow> caps \<Rightarrow> 'r option) \<Rightarrow> 'r option" where
  "star_greedy ic a p [] c k = k p [] c"
| "star_greedy ic a p (x # xs) c k =
     (if atom_ok ic a x
      then (case star_greedy ic a (Some x) xs c k of
              Some r \<Rightarrow> Some r
            | None \<Rightarrow> k p (x # xs) c)
      else k p (x # xs) c)"

fun star_lazy ::
  "bool \<Rightarrow> atom \<Rightarrow> nat option \<Rightarrow> pystr \<Rightarrow> caps \<Rightarrow> (nat option \<Rightarrow> pystr \<Rightarrow> caps \<Rightarrow> 'r option) \<Rightarrow> 'r option" where
  "star_lazy ic a p [] c k = k p [] c"
| "star_lazy ic a p (x # xs) c k =
     (case k p (x # xs) c of
        Some r \<Rightarrow> Some r
      | None \<Rightarrow> (if atom_ok ic a x then star_lazy ic a (Some x) xs c k else None))"

definition is_word_opt :: "nat option \<Rightarrow> bool" where
  "is_word_opt p = (case p of None \<Rightarrow> False | Some c \<Rightarrow> is_word c)"

definition next_ch :: "pystr \<Rightarrow> nat option" where
  "next_ch s = (case s of [] \<Rightarrow> None | x # xs \<Rightarrow> Some x)"

primrec rx_m ::
  "bool \<Rightarrow> rx \<Rightarrow> nat option \<Rightarrow> pystr \<Rightarrow> caps \<Rightarrow> (nat option \<Rightarrow> pystr \<Rightarrow> caps \<Rightarrow> 'r option) \<Rightarrow> 'r option" where
  "rx_m ic (A a) p s c k =
     (case s of [] \<Rightarrow> None | x # xs \<Rightarrow> if atom_ok ic a x then k (Some x) xs c else None)"
| "rx_m ic (Lit l) p s c k =
     (case lit_m ic l p s of None \<Rightarrow> None | Some (p', s') \<Rightarrow> k p' s' c)"
| "rx_m ic (Seq r1 r2) p s c k = rx_m ic r1 p s c (\<lambda>p' s' c'. rx_m ic r2 p' s' c' k)"
| "rx_m ic (Alt r1 r2) p s c k =
     (case rx_m ic r1 p s c k of Some r \<Rightarrow> Some r | None \<Rightarrow> rx_m ic r2 p s c k)"
| "rx_m ic (Opt r) p s c k =
     (case rx_m ic r p s c k of Some r \<Rightarrow> Some r | None \<Rightarrow> k p s c)"
| "rx_m ic (Star a) p s c k = star_greedy ic a p s c k"
| "rx_m ic (Plus a) p s c k =
     (case s of [] \<Rightarrow> None
      | x # xs \<Rightarrow> if atom_ok ic a x then star_greedy ic a (Some x) xs c k else None)"
| "rx_m ic (PlusLazy a) p s c k =
     (case s of [] \<Rightarrow> None
      | x # xs \<Rightarrow> if atom_ok ic a x then star_lazy ic a (Some x) xs c k else None)"
| "rx_m ic (Grp n r) p s c k =
     rx_m ic r p s c (\<lambda>p' s' c'. k p' s' (c'(n := Some (take (length s - length s') s))))"
| "rx_m ic Bol p s c k = (if p = None then k p s c else None)"
| "rx_m ic Eol p s c k = (if s = [] \<or> s = [10] then k p s c else None)"
| "rx_m ic Wb p s c k =
     (if is_word_opt p \<noteq> is_word_opt (next_ch s) then k p s c else None)"
| "rx_m ic Eps p s c k = k p s c"

text \<open>A match at the current position: the rest of the text after it, and the groups.\<close>

definition rx_at :: "bool \<Rightarrow> rx \<Rightarrow> nat option \<Rightarrow> pystr \<Rightarrow> (pystr \<times> caps) option" where
  "rx_at ic r p s = rx_m ic r p s (\<lambda>n. None) (\<lambda>p' s' c. Some (s', c))"

text \<open>\<open>re.match\<close>: a match at the start of the text.\<close>

definition re_match :: "bool \<Rightarrow> rx \<Rightarrow> pystr \<Rightarrow> caps option" where
  "re_match ic r t = map_option snd (rx_at ic r None t)"

text \<open>\<open>re.search\<close>: the leftmost match.\<close>

fun search_from :: "bool \<Rightarrow> rx \<Rightarrow> nat option \<Rightarrow> pystr \<Rightarrow> caps option" where
  "search_from ic r p [] = map_option snd (rx_at ic r p [])"
| "search_from ic r p (x # xs) =
     (case rx_at ic r p (x # xs) of
        Some m \<Rightarrow> Some (snd m)
      | None \<Rightarrow> search_from ic r (Some x) xs)"

definition re_search :: "bool \<Rightarrow> rx \<Rightarrow> pystr \<Rightarrow> caps option" where
  "re_search ic r t = search_from ic r None t"

text \<open>Patterns are written with these abbreviations.\<close>

definition cat :: "rx list \<Rightarrow> rx" where
  "cat rs = foldr Seq rs Eps"

fun alts :: "rx list \<Rightarrow> rx" where
  "alts [] = Eps"
| "alts [r] = r"
| "alts (r # r' # rs) = Alt r (alts (r' # rs))"

definition L :: "string \<Rightarrow> rx" where
  "L s = Lit (u s)"

definition spaces :: rx where
  "spaces = Star (In [CSpace])"

definition digits :: rx where
  "digits = Plus (In [CDigit])"

section \<open>Numbers\<close>

text \<open>
  The exceptions the converter can raise: \<open>ValueError\<close> and \<open>OverflowError\<close> from the
  conversions of numbers, and \<open>TemplateError\<close> for what \<open>re.sub\<close> raises on a
  replacement template it cannot read (\<open>re.error\<close>, or \<open>IndexError\<close> for an unknown group
  name).
\<close>

datatype error = ValueError | OverflowError | TemplateError

text \<open>\<open>str(n)\<close> of an integer.\<close>

fun nat_digits :: "nat \<Rightarrow> pystr" where
  "nat_digits n = (if n < 10 then [48 + n] else nat_digits (n div 10) @ [48 + n mod 10])"

declare nat_digits.simps [simp del]

definition py_str :: "int \<Rightarrow> pystr" where
  "py_str i = (if i < 0 then 45 # nat_digits (nat (- i)) else nat_digits (nat i))"

text \<open>
  (\<open>str\<close> raises \<open>ValueError\<close> on an integer of more than 4300 digits, the interpreter's
  \<open>sys.int_max_str_digits\<close>; \<open>py_str\<close> is the text where \<open>str\<close> gives one.)
\<close>

text \<open>The number that a string of decimal digits writes.\<close>

definition digits_value :: "pystr \<Rightarrow> int" where
  "digits_value s = foldl (\<lambda>a d. 10 * a + (int d - 48)) 0 s"

text \<open>
  \<open>int(s)\<close>: white space around the number is dropped (of the ASCII control characters
  only tab to carriage return), a sign may come first, and the digits may have single
  underscores between them.  It raises \<open>ValueError\<close> on any other string, and on more than
  4300 digits (\<open>sys.int_max_str_digits\<close>, leading zeros counted).
\<close>

definition int_space :: "nat \<Rightarrow> bool" where
  "int_space c = ((9 \<le> c \<and> c \<le> 13) \<or> c = 32 \<or> c = 133 \<or> c = 160)"

fun underscored :: "pystr \<Rightarrow> bool" where
  "underscored [] = False"
| "underscored [c] = is_digit c"
| "underscored (c # d # cs) =
     (is_digit c \<and> (if d = 95 then underscored cs else underscored (d # cs)))"

definition py_int :: "pystr \<Rightarrow> error + int" where
  "py_int s =
    (let t = rev (dropWhile int_space (rev (dropWhile int_space s)));
         signed = (case t of [] \<Rightarrow> False | c # cs \<Rightarrow> c = 43 \<or> c = 45);
         body = (if signed then tl t else t);
         ds = filter is_digit body
     in if underscored body \<and> length ds \<le> 4300
        then Inr (if signed \<and> hd t = 45 then - digits_value ds else digits_value ds)
        else Inl ValueError)"

text \<open>
  A Python \<open>float\<close> is a binary64 number.  A finite one is modelled by its exact value, a
  rational; \<open>double_of_frac a b\<close> is the binary64 number nearest to \<open>a / b\<close> (ties to the
  even significand, 53 bits, exponents from -1022 to 1023, infinity from \<open>2 ^ 1024\<close> on).
  Only non-negative numbers occur.
\<close>

datatype pyfloat = Fin rat | FInf | FNaN

fun nbits :: "nat \<Rightarrow> nat" where
  "nbits n = (if n = 0 then 0 else Suc (nbits (n div 2)))"

declare nbits.simps [simp del]

definition pow2 :: "int \<Rightarrow> rat" where
  "pow2 e = (if 0 \<le> e then 2 ^ nat e else 1 / 2 ^ nat (- e))"

text \<open>\<open>x / y\<close> rounded to the nearest integer, ties to even (\<open>0 < y\<close>).\<close>

definition rhe_div :: "int \<Rightarrow> int \<Rightarrow> int" where
  "rhe_div x y =
    (let q = x div y; r = x mod y
     in if 2 * r < y then q else if y < 2 * r then q + 1 else if even q then q else q + 1)"

text \<open>The integer part of the binary logarithm of \<open>a / b\<close> (\<open>0 < a\<close>, \<open>0 < b\<close>).\<close>

definition ilog2 :: "nat \<Rightarrow> nat \<Rightarrow> int" where
  "ilog2 a b =
    (let d = int (nbits a) - int (nbits b)
     in if (if 0 \<le> d then b * 2 ^ nat d \<le> a else b \<le> a * 2 ^ nat (- d)) then d else d - 1)"

definition double_of_frac :: "nat \<Rightarrow> nat \<Rightarrow> pyfloat" where
  "double_of_frac a b =
    (if a = 0 then Fin 0
     else let e = max (ilog2 a b) (- 1022);
              sh = e - 52;
              n = (if 0 \<le> sh then rhe_div (int a) (int b * 2 ^ nat sh)
                   else rhe_div (int a * 2 ^ nat (- sh)) (int b));
              v = of_int n * pow2 sh
          in if 2 ^ 1024 \<le> v then FInf else Fin v)"

text \<open>
  \<open>float(s)\<close>.  The converter passes it only strings over the digits, \<open>.\<close> and \<open>/\<close>; on
  these it succeeds exactly when the string is a decimal number: digits with at most
  one point and at least one digit.
\<close>

definition py_float :: "pystr \<Rightarrow> error + pyfloat" where
  "py_float s =
    (let ip = takeWhile is_digit s; r = dropWhile is_digit s
     in case r of
          [] \<Rightarrow> if ip = [] then Inl ValueError else Inr (double_of_frac (nat (digits_value ip)) 1)
        | c # fp \<Rightarrow>
            if c = 46 \<and> list_all is_digit fp \<and> \<not> (ip = [] \<and> fp = [])
            then Inr (double_of_frac (nat (digits_value (ip @ fp))) (10 ^ length fp))
            else Inl ValueError)"

text \<open>\<open>round(x)\<close> of a finite float: the nearest integer, ties to even.\<close>

definition round_half_even :: "rat \<Rightarrow> int" where
  "round_half_even x =
    (let f = \<lfloor>x\<rfloor>; d = x - of_int f
     in if d < 1 / 2 then f else if 1 / 2 < d then f + 1 else if even f then f else f + 1)"

text \<open>\<open>round(x)\<close> and \<open>int(x)\<close> raise \<open>OverflowError\<close> on infinity (and \<open>ValueError\<close> on NaN).\<close>

definition py_round :: "pyfloat \<Rightarrow> error + int" where
  "py_round x = (case x of Fin q \<Rightarrow> Inr (round_half_even q) | FInf \<Rightarrow> Inl OverflowError
                 | FNaN \<Rightarrow> Inl ValueError)"

definition py_int_of_float :: "pyfloat \<Rightarrow> error + int" where
  "py_int_of_float x = (case x of Fin q \<Rightarrow> Inr \<lfloor>q\<rfloor> | FInf \<Rightarrow> Inl OverflowError
                        | FNaN \<Rightarrow> Inl ValueError)"

text \<open>\<open>x / y\<close> on floats; \<open>None\<close> is \<open>ZeroDivisionError\<close>.\<close>

definition py_fdiv :: "pyfloat \<Rightarrow> pyfloat \<Rightarrow> pyfloat option" where
  "py_fdiv x y =
    (case y of
       Fin b \<Rightarrow>
         if b = 0 then None
         else (case x of
                 Fin a \<Rightarrow> (let (n, d) = quotient_of (a / b) in Some (double_of_frac (nat n) (nat d)))
               | FInf \<Rightarrow> Some FInf
               | FNaN \<Rightarrow> Some FNaN)
     | FInf \<Rightarrow> (case x of Fin a \<Rightarrow> Some (Fin 0) | FInf \<Rightarrow> Some FNaN | FNaN \<Rightarrow> Some FNaN)
     | FNaN \<Rightarrow> Some FNaN)"

section \<open>The data model (models.py)\<close>

record Ingredient =
  name :: pystr
  quantity :: "pystr option"
  unit :: "pystr option"
  quantity_numeric :: "pyfloat option"
  quantity_max :: "pyfloat option"

record AnnotationPosition =
  offset :: int
  len :: int

record TTSAnnotation =
  position :: AnnotationPosition
  tts_speed :: "pystr option"
  tts_time :: "int option"
  temperature_value :: "pystr option"
  temperature_unit :: pystr

record IngredientAnnotation =
  ia_position :: AnnotationPosition
  ingredient :: Ingredient

record ThermomixStep =
  description :: pystr
  duration_seconds :: "int option"
  temperature :: "int option"
  speed :: "int option"
  reverse :: bool
  is_turbo :: bool
  is_varoma :: bool
  tts_annotations :: "TTSAnnotation list"
  ingredient_annotations :: "IngredientAnnotation list"

record ScrapedRecipe =
  title :: pystr
  sr_ingredients :: "pystr list"
  instructions :: "pystr list"
  total_time :: "int option"
  prep_time :: "int option"
  cook_time :: "int option"
  sr_servings :: "int option"
  image_url :: "pystr option"
  sr_source_url :: pystr

record ThermomixRecipe =
  recipe_name :: pystr
  ingredients :: "Ingredient list"
  steps :: "ThermomixStep list"
  servings :: int
  prep_time_minutes :: int
  total_time_minutes :: int
  hints :: "pystr list"
  source_url :: pystr
  tools :: "pystr list"
  recipe_locale :: pystr

text \<open>Python's truth value of an optional integer and of an optional string.\<close>

definition truthy_int :: "int option \<Rightarrow> bool" where
  "truthy_int x = (case x of None \<Rightarrow> False | Some n \<Rightarrow> n \<noteq> 0)"

definition truthy_str :: "pystr option \<Rightarrow> bool" where
  "truthy_str x = (case x of None \<Rightarrow> False | Some s \<Rightarrow> s \<noteq> [])"

definition is_fr :: "pystr \<Rightarrow> bool" where
  "is_fr loc = starts_with (u ''fr'') loc"

text \<open>\<open>ThermomixStep.tts_text\<close>; \<open>tts_details\<close> is its list \<open>details\<close>.\<close>

definition time_str :: "int \<Rightarrow> pystr" where
  "time_str d =
    (let minutes = d div 60; secs = d mod 60
     in if 0 < minutes
        then py_str minutes @ u '' min'' @ (if secs \<noteq> 0 then u '' '' @ py_str secs @ u '' sec'' else [])
        else py_str secs @ u '' sec'')"

definition tts_details :: "ThermomixStep \<Rightarrow> pystr \<Rightarrow> pystr list" where
  "tts_details st loc =
    (if truthy_int (duration_seconds st) then [time_str (the (duration_seconds st))] else [])
    @ (if is_varoma st then [u ''Varoma'']
       else if truthy_int (temperature st) then [py_str (the (temperature st)) @ [176, 67]]
       else [])
    @ (if is_turbo st then [u ''Turbo'']
       else if truthy_int (speed st)
       then [(if is_fr loc then u ''vitesse'' else u ''speed'') @ u '' '' @ py_str (the (speed st))]
       else [])"

definition tts_text :: "ThermomixStep \<Rightarrow> pystr \<Rightarrow> pystr option" where
  "tts_text st loc =
    (let details = tts_details st loc
     in if details \<noteq> [] then Some (py_join (u ''/'') details) else None)"

text \<open>\<open>ThermomixStep.to_text\<close>.\<close>

definition to_text :: "ThermomixStep \<Rightarrow> pystr \<Rightarrow> pystr" where
  "to_text st loc =
    (case tts_text st loc of
       Some tts \<Rightarrow> if tts \<noteq> [] then description st @ u '' '' @ tts else description st
     | None \<Rightarrow> description st)"

text \<open>\<open>Ingredient.to_text\<close>.\<close>

definition lower_first :: "pystr \<Rightarrow> pystr" where
  "lower_first s = (case s of [] \<Rightarrow> [] | c # cs \<Rightarrow> lower_cp c # cs)"

definition ingredient_vowels :: pystr where
  "ingredient_vowels =
     u ''aeiouy'' @ [224, 226, 233, 232, 234, 235, 239, 238, 244, 249, 251, 252] @ u ''AEIOUY''"

definition ingredient_to_text :: "Ingredient \<Rightarrow> pystr \<Rightarrow> pystr" where
  "ingredient_to_text ing loc =
    (let nm = lower_first (name ing)
     in if truthy_str (quantity ing) \<and> truthy_str (unit ing)
        then (if is_fr loc
              then (if nm \<noteq> [] \<and> hd nm \<in> set ingredient_vowels
                    then the (quantity ing) @ u '' '' @ the (unit ing) @ u '' d'' @ [39] @ nm
                    else the (quantity ing) @ u '' '' @ the (unit ing) @ u '' de '' @ nm)
              else the (quantity ing) @ u '' '' @ the (unit ing) @ u '' '' @ nm)
        else if truthy_str (quantity ing) then the (quantity ing) @ u '' '' @ nm
        else nm)"

section \<open>The tables (constants.py)\<close>

text \<open>
  A preset is the dictionary of a keyword; a key the dictionary does not have is \<open>None\<close>.
  The two keyword dictionaries are read in insertion order, so they are lists of pairs.
\<close>

record preset =
  p_speed :: "int option"
  p_duration :: "int option"
  p_temp :: "int option"
  p_reverse :: "bool option"
  p_varoma :: "bool option"

definition mixing :: "int \<Rightarrow> int \<Rightarrow> preset" where
  "mixing s d = \<lparr>p_speed = Some s, p_duration = Some d, p_temp = None, p_reverse = None,
                 p_varoma = None\<rparr>"

definition mixing_rev :: "int \<Rightarrow> int \<Rightarrow> preset" where
  "mixing_rev s d = \<lparr>p_speed = Some s, p_duration = Some d, p_temp = None,
                     p_reverse = Some True, p_varoma = None\<rparr>"

definition cooking :: "int \<Rightarrow> int \<Rightarrow> preset" where
  "cooking s t = \<lparr>p_speed = Some s, p_duration = None, p_temp = Some t, p_reverse = None,
                  p_varoma = None\<rparr>"

definition cooking_rev :: "int \<Rightarrow> int \<Rightarrow> preset" where
  "cooking_rev s t = \<lparr>p_speed = Some s, p_duration = None, p_temp = Some t,
                      p_reverse = Some True, p_varoma = None\<rparr>"

definition cooking_varoma :: "int \<Rightarrow> int \<Rightarrow> preset" where
  "cooking_varoma s t = \<lparr>p_speed = Some s, p_duration = None, p_temp = Some t,
                         p_reverse = None, p_varoma = Some True\<rparr>"

definition MIXING_KEYWORDS :: "(pystr \<times> preset) list" where
  "MIXING_KEYWORDS =
    [(u ''melanger'', mixing 3 30), (u ''mixer'', mixing 8 30), (u ''battre'', mixing 4 45),
     (u ''fouetter'', mixing 4 60), (u ''petrir'', mixing 6 120), (u ''hacher'', mixing 5 5),
     (u ''emincer'', mixing 5 5), (u ''pulveriser'', mixing 10 15), (u ''broyer'', mixing 10 30),
     (u ''raper'', mixing 5 10), (u ''concasser'', mixing 5 10),
     (u ''incorporer'', mixing_rev 3 30), (u ''remuer'', mixing_rev 1 60),
     (u ''touiller'', mixing_rev 1 30),
     (u ''mix'', mixing 3 30), (u ''blend'', mixing 8 30), (u ''beat'', mixing 4 45),
     (u ''whisk'', mixing 4 60), (u ''whip'', mixing 4 60), (u ''knead'', mixing 6 120),
     (u ''chop'', mixing 5 5), (u ''dice'', mixing 5 5), (u ''slice'', mixing 5 5),
     (u ''mince'', mixing 5 5), (u ''grind'', mixing 10 30), (u ''grate'', mixing 5 10),
     (u ''shred'', mixing 5 10), (u ''crush'', mixing 5 10), (u ''puree'', mixing 8 30),
     (u ''fold'', mixing_rev 3 30), (u ''combine'', mixing 3 30), (u ''stir'', mixing_rev 1 60),
     (u ''emulsify'', mixing 4 30)]"

definition COOKING_KEYWORDS :: "(pystr \<times> preset) list" where
  "COOKING_KEYWORDS =
    [(u ''cuire'', cooking 1 100), (u ''mijoter'', cooking_rev 1 90),
     (u ''rissoler'', cooking 1 120), (u ''sauter'', cooking 1 120), (u ''saute'', cooking 1 120),
     (u ''revenir'', cooking_rev 1 120), (u ''faire revenir'', cooking_rev 1 120),
     (u ''dorer'', cooking_rev 1 120), (u ''fondre'', cooking 1 50),
     (u ''faire fondre'', cooking 1 50), (u ''chauffer'', cooking 2 90),
     (u ''rechauffer'', cooking 2 70), (u ''bouillir'', cooking 1 100),
     (u ''fremir'', cooking 1 90), (u ''porter a ebullition'', cooking 1 100),
     (u ''blanchir'', cooking 1 100), (u ''braiser'', cooking_rev 1 100),
     (u ''compoter'', cooking_rev 1 90), (u ''confire'', cooking_rev 1 80),
     (u ''carameliser'', cooking 2 120), (u ''vapeur'', cooking_varoma 1 100),
     (u ''cook'', cooking 1 100), (u ''simmer'', cooking_rev 1 90), (u ''sear'', cooking 1 120),
     (u ''fry'', cooking 1 120), (u ''brown'', cooking_rev 1 120), (u ''melt'', cooking 1 50),
     (u ''heat'', cooking 2 90), (u ''warm'', cooking 2 70), (u ''reheat'', cooking 2 70),
     (u ''boil'', cooking 1 100), (u ''bring to a boil'', cooking 1 100),
     (u ''blanch'', cooking 1 100), (u ''braise'', cooking_rev 1 100),
     (u ''caramelize'', cooking 2 120), (u ''steam'', cooking_varoma 1 100),
     (u ''roast'', cooking 1 120), (u ''reduce'', cooking 1 100), (u ''poach'', cooking 1 80),
     (u ''scald'', cooking 1 90)]"

text \<open>
  \<open>TURBO_KEYWORDS\<close> is a Python \<open>set\<close>: the order in which a loop reads it is not fixed by
  the program (it depends on the hashes of the strings, which change from one run of the
  interpreter to the next).  The list below is one enumeration, in the order of the
  source; the functions that read the set take the enumeration as a parameter.
\<close>

definition TURBO_KEYWORDS :: "pystr list" where
  "TURBO_KEYWORDS =
    [u ''mixer finement'', u ''reduire en poudre'', u ''glace pilee'',
     u ''crush ice'', u ''grind to powder'', u ''finely blend'']"

definition opt_s :: "string \<Rightarrow> rx" where
  "opt_s w = Seq (L w) (Opt (L ''s''))"

definition opt_class_s :: "pystr \<Rightarrow> rx" where
  "opt_class_s w = Seq (Lit w) (Opt (A (In [CCh 115])))"

definition UNITS_PATTERN :: rx where
  "UNITS_PATTERN = alts
    [opt_s ''tablespoon'', L ''tbsp'', opt_s ''teaspoon'', L ''tsp'', opt_s ''cup'',
     opt_s ''ounce'', L ''oz'', opt_s ''pound'', opt_s ''lb'',
     L ''pinch'', opt_s ''slice'', opt_s ''leave'', opt_s ''clove'', L ''bunch'',
     opt_s ''sprig'', opt_s ''stick'', opt_s ''can'', opt_s ''piece'',
     opt_s ''gramme'', opt_s ''kilogramme'', opt_s ''litre'', L ''kg'', L ''ml'', L ''cl'', L ''g'',
     cat [L ''c.'', spaces, Lit [224], spaces, A (In [CCh 115, CCh 99])],
     cat [opt_class_s (u ''cuill'' @ [232] @ u ''re''), spaces, Lit [224], spaces, Plus (In [CWord])],
     opt_class_s (u ''pinc'' @ [233] @ u ''e''), opt_class_s (u ''sachet''),
     opt_class_s (u ''tranche''), opt_class_s (u ''feuille''),
     cat [L ''l'', Wb]]"

definition UNIT_MAP :: "(pystr \<times> pystr) list" where
  "UNIT_MAP =
    [(u ''gramme'', u ''g''), (u ''grammes'', u ''g''), (u ''kilogramme'', u ''kg''),
     (u ''kilogrammes'', u ''kg''), (u ''litre'', u ''l''), (u ''litres'', u ''l''),
     (u ''tablespoon'', u ''tbsp''), (u ''tablespoons'', u ''tbsp''),
     (u ''teaspoon'', u ''tsp''), (u ''teaspoons'', u ''tsp''), (u ''ounce'', u ''oz''),
     (u ''ounces'', u ''oz''), (u ''pound'', u ''lb''), (u ''pounds'', u ''lb''),
     (u ''lbs'', u ''lb''), (u ''cup'', u ''cup''), (u ''cups'', u ''cup'')]"

definition FRACTION_MAP :: "(pystr \<times> pystr) list" where
  "FRACTION_MAP =
    [(u ''0.25'', [188]), (u ''0.33'', [8531]), (u ''0.5'', [189]), (u ''0.66'', [8532]),
     (u ''0.75'', [190])]"

definition TOOL_KEYWORDS :: "(pystr \<times> pystr list) list" where
  "TOOL_KEYWORDS =
    [(u ''Four'', [u ''four'', u ''enfourner'', u ''oven'', u ''bake'', u ''baking'',
                   u ''prechauffer'', u ''preheat'']),
     (u ''Varoma'', [u ''varoma'', u ''vapeur'', u ''steam'', u ''steaming'']),
     (u ''Fouet papillon'', [u ''fouet papillon'', u ''butterfly'', u ''butterfly whisk'',
                             u ''monter en neige'', u ''chantilly'', u ''creme fouettee'',
                             u ''whipped cream'', u ''stiff peaks'', u ''soft peaks'']),
     (u ''Panier de cuisson'', [u ''panier de cuisson'', u ''steaming basket'',
                                u ''steam basket''])]"

section \<open>Substitution (re.sub)\<close>

text \<open>
  A replacement string without a backslash stands for itself.  One with a backslash is
  a template: \<open>\g<0>\<close> (or any name that \<open>int\<close> reads as 0) is the matched text, \<open>\n\<close> and its like are control characters,
  \<open>\0\<close> and three octal digits give a character, a backslash before another character
  that is not an ASCII letter or digit stays with it; everything else is an error (a
  reference to a group the pattern does not have, an unknown escape, a backslash at the
  end).  The patterns that meet a template here have no group.  \<open>re.sub\<close> reads the
  template before it looks for a match.
\<close>

datatype titem = TChr nat | TWhole

definition is_oct :: "nat \<Rightarrow> bool" where
  "is_oct c = (48 \<le> c \<and> c \<le> 55)"

definition oct_val :: "pystr \<Rightarrow> nat" where
  "oct_val s = foldl (\<lambda>a d. 8 * a + (d - 48)) 0 s"

definition is_ascii_letter :: "nat \<Rightarrow> bool" where
  "is_ascii_letter c = ((65 \<le> c \<and> c \<le> 90) \<or> (97 \<le> c \<and> c \<le> 122))"

definition ESCAPES :: "(nat \<times> nat) list" where
  "ESCAPES = [(97, 7), (98, 8), (102, 12), (110, 10), (114, 13), (116, 9), (118, 11), (92, 92)]"

text \<open>
  The escape that starts after a backslash: its items and the number of characters it
  takes after the backslash.
\<close>

definition escape_at :: "pystr \<Rightarrow> error + (titem list \<times> nat)" where
  "escape_at cs =
    (case cs of
       [] \<Rightarrow> Inl TemplateError
     | d # ds \<Rightarrow>
         if d = 103 then
           (case ds of
              [] \<Rightarrow> Inl TemplateError
            | b # rest \<Rightarrow>
                (let nm = takeWhile (\<lambda>x. x \<noteq> 62) rest
                 in if b = 60 \<and> length nm < length rest \<and> py_int nm = Inr 0
                    then Inr ([TWhole], 3 + length nm)
                    else Inl TemplateError))
         else if d = 48 then
           (let od = takeWhile is_oct (take 2 ds)
            in Inr ([TChr (oct_val (d # od) mod 256)], 1 + length od))
         else if is_digit d then
           (case ds of
              e # f # rest \<Rightarrow>
                if is_oct d \<and> is_oct e \<and> is_oct f \<and> oct_val [d, e, f] \<le> 255
                then Inr ([TChr (oct_val [d, e, f])], 3)
                else Inl TemplateError
            | _ \<Rightarrow> Inl TemplateError)
         else (case map_of ESCAPES d of
                 Some c \<Rightarrow> Inr ([TChr c], 1)
               | None \<Rightarrow> if is_ascii_letter d then Inl TemplateError
                          else Inr ([TChr 92, TChr d], 1)))"

fun parse_template :: "pystr \<Rightarrow> error + titem list" where
  "parse_template [] = Inr []"
| "parse_template (c # cs) =
     (if c \<noteq> 92
      then (case parse_template cs of Inl e \<Rightarrow> Inl e | Inr its \<Rightarrow> Inr (TChr c # its))
      else (case escape_at cs of
              Inl e \<Rightarrow> Inl e
            | Inr (its, n) \<Rightarrow>
                (case parse_template (drop n cs) of
                   Inl e \<Rightarrow> Inl e
                 | Inr its' \<Rightarrow> Inr (its @ its'))))"

fun expand :: "titem list \<Rightarrow> pystr \<Rightarrow> pystr" where
  "expand [] m = []"
| "expand (TChr c # its) m = c # expand its m"
| "expand (TWhole # its) m = m @ expand its m"

text \<open>
  The substitution itself, from the left: at a match that is not empty the expansion
  is emitted and the search goes on after the match; otherwise the character is copied.
  (No pattern of the converter matches the empty string.  At an empty match the
  expansion is emitted before the character is copied.)
\<close>

function sub_from :: "bool \<Rightarrow> rx \<Rightarrow> titem list \<Rightarrow> nat option \<Rightarrow> pystr \<Rightarrow> pystr" where
  "sub_from ic r repl p s =
    (case rx_at ic r p s of
       Some (s', c) \<Rightarrow>
         if length s' < length s
         then expand repl (take (length s - length s') s)
              @ sub_from ic r repl (Some (s ! (length s - length s' - 1))) s'
         else (case s of
                 [] \<Rightarrow> expand repl []
               | x # xs \<Rightarrow> expand repl [] @ x # sub_from ic r repl (Some x) xs)
     | None \<Rightarrow>
         (case s of
            [] \<Rightarrow> []
          | x # xs \<Rightarrow> x # sub_from ic r repl (Some x) xs))"
  by pat_completeness auto
termination
  by (relation "measure (\<lambda>(ic, r, repl, p, s). length s)") auto

declare sub_from.simps [simp del]

text \<open>\<open>re.sub\<close> with a replacement that has no backslash.\<close>

definition re_sub :: "bool \<Rightarrow> rx \<Rightarrow> pystr \<Rightarrow> pystr \<Rightarrow> pystr" where
  "re_sub ic r repl t = sub_from ic r (map TChr repl) None t"

text \<open>\<open>re.sub\<close> with any replacement.\<close>

definition re_sub_template :: "bool \<Rightarrow> rx \<Rightarrow> pystr \<Rightarrow> pystr \<Rightarrow> error + pystr" where
  "re_sub_template ic r repl t =
    (case parse_template repl of
       Inl e \<Rightarrow> Inl e
     | Inr its \<Rightarrow> Inr (sub_from ic r its None t))"

section \<open>The extractors (thermomix_converter.py)\<close>

definition vitesse_or_speed :: rx where
  "vitesse_or_speed = Alt (L ''vitesse'') (L ''speed'')"

definition digits_or_dots :: rx where
  "digits_or_dots = Plus (In [CDigit, CCh 46])"

definition TTS_TEXT_RE :: rx where
  "TTS_TEXT_RE = cat
    [spaces, Opt (L ''.''), spaces,
     Opt (cat [digits, spaces, alts [L ''sec'', L ''min'', L ''s''], spaces, L ''/'', spaces]),
     Opt (cat [digits, spaces, Lit [176, 67], spaces, L ''/'', spaces]),
     vitesse_or_speed, spaces, digits_or_dots,
     spaces, Opt (L ''.''), spaces]"

definition OLD_TTS_RE :: rx where
  "OLD_TTS_RE = cat
    [spaces, L ''('', Star (NotIn [CCh 41]), Alt (L ''speed'') (L ''vitesse''), spaces,
     digits_or_dots, Star (NotIn [CCh 41]), L '')'', spaces]"

definition more_spaces :: rx where
  "more_spaces = Plus (In [CSpace])"

definition IN_THERMOMIX_RE :: rx where
  "IN_THERMOMIX_RE = cat
    [Alt (L ''dans'') (L ''au''), more_spaces, Opt (Seq (L ''le'') more_spaces), L ''thermomix'']"

definition OF_THERMOMIX_RE :: rx where
  "OF_THERMOMIX_RE = cat [L ''du'', more_spaces, L ''thermomix'']"

definition TWO_DOTS_RE :: rx where
  "TWO_DOTS_RE = cat [L ''.'', spaces, L ''.'', Eol]"

text \<open>\<open>_clean_description\<close>.\<close>

definition clean_description :: "pystr \<Rightarrow> pystr" where
  "clean_description text0 =
    (let text1 = re_sub True OLD_TTS_RE (u '' '') text0;
         text2 = re_sub True TTS_TEXT_RE (u '' '') text1;
         text3 = re_sub True IN_THERMOMIX_RE (u ''dans le bol'') text2;
         text4 = re_sub True OF_THERMOMIX_RE [] text3;
         text5 = py_strip (re_sub False more_spaces (u '' '') text4)
     in re_sub False TWO_DOTS_RE (u ''.'') text5)"

text \<open>\<open>_parse_speed_from_text\<close>: \<open>float\<close> and \<open>round\<close> are not guarded.\<close>

definition SPEED_RE :: rx where
  "SPEED_RE = cat [vitesse_or_speed, spaces, Grp 1 digits_or_dots]"

definition parse_speed_from_text :: "pystr \<Rightarrow> error + int option" where
  "parse_speed_from_text t =
    (case re_search True SPEED_RE t of
       Some m \<Rightarrow>
         (case py_float (the (m 1)) of
            Inl e \<Rightarrow> Inl e
          | Inr x \<Rightarrow> (case py_round x of Inl e \<Rightarrow> Inl e | Inr n \<Rightarrow> Inr (Some (max 1 n))))
     | None \<Rightarrow> Inr None)"

text \<open>\<open>_parse_duration_from_text\<close>; the \<open>int\<close> of a captured number is not guarded.\<close>

definition MINUTES_RE :: rx where
  "MINUTES_RE = cat [Grp 1 digits, spaces, Alt (opt_s ''minute'') (L ''min'')]"

definition SECONDS_RE :: rx where
  "SECONDS_RE = cat
    [Grp 1 digits, spaces, alts [opt_s ''seconde'', opt_s ''second'', L ''sec'', Seq (L ''s'') Wb]]"

definition HOURS_RE :: rx where
  "HOURS_RE = cat
    [Grp 1 digits, spaces, Seq (L ''h'') (Opt (Alt (opt_s ''eure'') (opt_s ''our''))), spaces,
     Opt (Grp 2 digits)]"

definition parse_duration_from_text :: "pystr \<Rightarrow> error + int option" where
  "parse_duration_from_text t =
    (let text_lower = py_lower t
     in case re_search False MINUTES_RE text_lower of
          Some m \<Rightarrow>
            (case py_int (the (m 1)) of Inl e \<Rightarrow> Inl e | Inr n \<Rightarrow> Inr (Some (n * 60)))
        | None \<Rightarrow>
            (case re_search False SECONDS_RE text_lower of
               Some m \<Rightarrow>
                 (case py_int (the (m 1)) of Inl e \<Rightarrow> Inl e | Inr n \<Rightarrow> Inr (Some n))
             | None \<Rightarrow>
                 (case re_search False HOURS_RE text_lower of
                    Some m \<Rightarrow>
                      (case py_int (the (m 1)) of
                         Inl e \<Rightarrow> Inl e
                       | Inr hours \<Rightarrow>
                           (case (case m 2 of
                                    Some g \<Rightarrow> if g \<noteq> [] then py_int g else Inr 0
                                  | None \<Rightarrow> Inr 0) of
                              Inl e \<Rightarrow> Inl e
                            | Inr minutes \<Rightarrow> Inr (Some ((hours * 60 + minutes) * 60))))
                  | None \<Rightarrow> Inr None)))"

text \<open>\<open>_parse_temperature_from_text\<close>; the \<open>int\<close> of the captured number is not guarded.\<close>

definition TEMPERATURE_RE :: rx where
  "TEMPERATURE_RE = cat [Grp 1 digits, spaces, Lit [176], spaces, Opt (A (In [CCh 67, CCh 99]))]"

definition parse_temperature_from_text :: "pystr \<Rightarrow> error + int option" where
  "parse_temperature_from_text t =
    (case re_search False TEMPERATURE_RE t of
       Some m \<Rightarrow>
         (case py_int (the (m 1)) of
            Inl e \<Rightarrow> Inl e
          | Inr temp \<Rightarrow> Inr (if 37 \<le> temp then Some (min temp 120) else None))
     | None \<Rightarrow> Inr None)"

text \<open>\<open>_is_varoma_temperature\<close>.\<close>

definition VAROMA_RE :: rx where
  "VAROMA_RE = cat [Wb, L ''varoma'', Wb]"

definition is_varoma_temperature :: "pystr \<Rightarrow> bool" where
  "is_varoma_temperature t = (re_search False VAROMA_RE (py_lower t) \<noteq> None)"

text \<open>\<open>_build_tts_annotation_from_step\<close>.\<close>

definition build_tts_annotation_from_step :: "ThermomixStep \<Rightarrow> pystr \<Rightarrow> TTSAnnotation option" where
  "build_tts_annotation_from_step st loc =
    (case tts_text st loc of
       None \<Rightarrow> None
     | Some tts_str \<Rightarrow>
         if tts_str = [] then None
         else Some \<lparr>position = \<lparr>offset = int (length (description st)) + 1,
                                  len = int (length tts_str)\<rparr>,
                    tts_speed = (if is_turbo st then Some (u ''Turbo'')
                                 else if truthy_int (speed st) then Some (py_str (the (speed st)))
                                 else None),
                    tts_time = duration_seconds st,
                    temperature_value =
                      (if is_varoma st then Some (u ''varoma'')
                       else if truthy_int (temperature st) then Some (py_str (the (temperature st)))
                       else None),
                    temperature_unit = u ''C''\<rparr>)"

section \<open>Steps (convert_step)\<close>

text \<open>The loop over the turbo keywords, in the order \<open>ks\<close>: \<open>is_turbo\<close> and \<open>duration\<close>.\<close>

fun turbo_scan :: "pystr list \<Rightarrow> pystr \<Rightarrow> bool \<times> int option" where
  "turbo_scan [] t = (False, None)"
| "turbo_scan (kw # ks) t = (if py_in kw t then (True, Some 15) else turbo_scan ks t)"

text \<open>The first keyword of a table that occurs in the text.\<close>

fun first_keyword :: "(pystr \<times> preset) list \<Rightarrow> pystr \<Rightarrow> preset option" where
  "first_keyword [] t = None"
| "first_keyword ((kw, ps) # kps) t = (if py_in kw t then Some ps else first_keyword kps t)"

text \<open>
  The parameters a step resolves: the local variables \<open>speed\<close>, \<open>temperature\<close>,
  \<open>duration\<close>, \<open>reverse\<close>, \<open>is_turbo\<close> and \<open>is_varoma\<close> of \<open>convert_step\<close>.
\<close>

record params =
  v_speed :: "int option"
  v_temperature :: "int option"
  v_duration :: "int option"
  v_reverse :: bool
  v_is_turbo :: bool
  v_is_varoma :: bool

definition cooking_tier :: "pystr \<Rightarrow> params \<Rightarrow> params" where
  "cooking_tier text_normalized v =
    (case first_keyword COOKING_KEYWORDS text_normalized of
       None \<Rightarrow> v
     | Some ps \<Rightarrow>
         v\<lparr>v_speed := Some (case p_speed ps of Some s \<Rightarrow> s | None \<Rightarrow> 1),
           v_temperature := p_temp ps,
           v_reverse := (case p_reverse ps of Some b \<Rightarrow> b | None \<Rightarrow> False),
           v_duration := p_duration ps,
           v_is_varoma := (if p_varoma ps = Some True then True else v_is_varoma v)\<rparr>)"

definition mixing_tier :: "pystr \<Rightarrow> params \<Rightarrow> params" where
  "mixing_tier text_normalized v =
    (if v_speed v = None
     then (case first_keyword MIXING_KEYWORDS text_normalized of
             None \<Rightarrow> v
           | Some ps \<Rightarrow>
               v\<lparr>v_speed := Some (case p_speed ps of Some s \<Rightarrow> s | None \<Rightarrow> 3),
                 v_duration := Some (case p_duration ps of Some d \<Rightarrow> d | None \<Rightarrow> 30),
                 v_reverse := (case p_reverse ps of Some b \<Rightarrow> b | None \<Rightarrow> False)\<rparr>)
     else v)"

text \<open>The three tiers: the values before the explicit ones of the text override them.\<close>

definition keyword_tiers :: "pystr list \<Rightarrow> pystr \<Rightarrow> params" where
  "keyword_tiers ks step_text =
    (let text_normalized = strip_accents (py_lower step_text);
         (turbo, d) = turbo_scan ks text_normalized;
         v = \<lparr>v_speed = None, v_temperature = None, v_duration = d, v_reverse = False,
              v_is_turbo = turbo, v_is_varoma = is_varoma_temperature step_text\<rparr>
     in if \<not> turbo then mixing_tier text_normalized (cooking_tier text_normalized v) else v)"

text \<open>
  \<open>convert_step\<close>, reading the turbo keywords in the order \<open>ks\<close>.  The three extractors
  are called in the order of the source (the temperature only when the step is not in
  steam mode); the first that raises ends the conversion.
\<close>

definition convert_step_in :: "pystr list \<Rightarrow> pystr \<Rightarrow> pystr \<Rightarrow> error + ThermomixStep" where
  "convert_step_in ks step_text loc =
    (let v = keyword_tiers ks step_text
     in case (if \<not> v_is_varoma v then parse_temperature_from_text step_text else Inr None) of
          Inl e \<Rightarrow> Inl e
        | Inr text_temp \<Rightarrow>
            (case parse_duration_from_text step_text of
               Inl e \<Rightarrow> Inl e
             | Inr text_duration \<Rightarrow>
                 (case parse_speed_from_text step_text of
                    Inl e \<Rightarrow> Inl e
                  | Inr text_speed \<Rightarrow>
                      (let temperature' =
                             (if truthy_int text_temp then text_temp else v_temperature v);
                           duration' =
                             (if truthy_int text_duration then text_duration else v_duration v);
                           speed' = (if text_speed \<noteq> None then text_speed else v_speed v);
                           step = \<lparr>description = clean_description step_text,
                                   duration_seconds = duration',
                                   temperature = temperature',
                                   speed = speed',
                                   reverse = v_reverse v,
                                   is_turbo = v_is_turbo v,
                                   is_varoma = v_is_varoma v,
                                   tts_annotations = [],
                                   ingredient_annotations = []\<rparr>
                       in case build_tts_annotation_from_step step loc of
                            Some tts \<Rightarrow> Inr (step\<lparr>tts_annotations := [tts]\<rparr>)
                          | None \<Rightarrow> Inr step))))"

definition convert_step :: "pystr \<Rightarrow> pystr \<Rightarrow> error + ThermomixStep" where
  "convert_step step_text loc = convert_step_in TURBO_KEYWORDS step_text loc"

section \<open>Ingredients (parse_ingredient)\<close>

text \<open>\<open>_normalize_unit\<close>.\<close>

definition normalize_unit :: "pystr option \<Rightarrow> pystr option" where
  "normalize_unit un =
    (case un of
       None \<Rightarrow> None
     | Some x \<Rightarrow> (case map_of UNIT_MAP (py_lower x) of Some y \<Rightarrow> Some y | None \<Rightarrow> Some x))"

text \<open>
  \<open>f"{decimal:.2g}"\<close> for a number of hundredths between 0 and 100, which is what
  \<open>round(val - whole, 2)\<close> gives.
\<close>

definition format_2g :: "int \<Rightarrow> pystr" where
  "format_2g h =
    (if h = 0 then u ''0''
     else if h = 100 then u ''1''
     else if h mod 10 = 0 then u ''0.'' @ py_str (h div 10)
     else if h < 10 then u ''0.0'' @ py_str h
     else u ''0.'' @ py_str h)"

definition py_replace :: "nat \<Rightarrow> nat \<Rightarrow> pystr \<Rightarrow> pystr" where
  "py_replace a b s = map (\<lambda>c. if c = a then b else c) s"

text \<open>
  \<open>_normalize_quantity\<close>: \<open>ValueError\<close> is caught, the \<open>OverflowError\<close> of \<open>int(val)\<close> on
  infinity is not.
\<close>

definition normalize_quantity :: "pystr option \<Rightarrow> error + pystr option" where
  "normalize_quantity qty0 =
    (case qty0 of
       None \<Rightarrow> Inr None
     | Some q \<Rightarrow>
         (let qty = py_strip q
          in case map_of FRACTION_MAP qty of
               Some g \<Rightarrow> Inr (Some g)
             | None \<Rightarrow>
                 (case py_float (py_replace 44 46 qty) of
                    Inl e \<Rightarrow> Inr (Some qty)
                  | Inr val \<Rightarrow>
                      (case py_int_of_float val of
                         Inl e \<Rightarrow> if e = ValueError then Inr (Some qty) else Inl e
                       | Inr whole \<Rightarrow>
                           (let h = (case val of Fin x \<Rightarrow> round_half_even ((x - of_int whole) * 100)
                                     | _ \<Rightarrow> 0);
                                decimal_str = format_2g h
                            in case map_of FRACTION_MAP decimal_str of
                                 Some g \<Rightarrow>
                                   if 0 < h
                                   then (if 0 < whole then Inr (Some (py_str whole @ u '' '' @ g))
                                         else Inr (Some g))
                                   else Inr (Some qty)
                               | None \<Rightarrow> Inr (Some qty))))))"

text \<open>\<open>str.split("/")\<close>, as far as its first two parts.\<close>

definition split_slash :: "pystr \<Rightarrow> pystr \<times> pystr" where
  "split_slash s =
    (takeWhile (\<lambda>c. c \<noteq> 47) s,
     takeWhile (\<lambda>c. c \<noteq> 47) (drop 1 (dropWhile (\<lambda>c. c \<noteq> 47) s)))"

text \<open>\<open>_parse_numeric_quantity\<close>.\<close>

definition parse_numeric_quantity :: "pystr option \<Rightarrow> pyfloat option" where
  "parse_numeric_quantity raw_qty =
    (case raw_qty of
       None \<Rightarrow> None
     | Some q \<Rightarrow>
         (let cleaned = py_strip (py_replace 44 46 q)
          in if 47 \<in> set cleaned
             then (case py_float (fst (split_slash cleaned)) of
                     Inl e \<Rightarrow> None
                   | Inr a \<Rightarrow>
                       (case py_float (snd (split_slash cleaned)) of
                          Inl e \<Rightarrow> None
                        | Inr b \<Rightarrow> py_fdiv a b))
             else (case py_float cleaned of Inl e \<Rightarrow> None | Inr x \<Rightarrow> Some x)))"

definition qty_chars :: atom where
  "qty_chars = In [CDigit, CCh 47, CCh 46, CCh 44]"

definition NAME_FIRST_RE :: rx where
  "NAME_FIRST_RE = cat
    [Bol, Grp 1 (PlusLazy Dot), spaces, A (In [CCh 45, CCh 8211]), spaces,
     Grp 2 (Plus qty_chars), spaces, Opt (Grp 3 UNITS_PATTERN), spaces, Eol]"

definition QUANTITY_FIRST_RE :: rx where
  "QUANTITY_FIRST_RE = cat
    [Bol, Grp 1 (Plus qty_chars), spaces, Opt (Grp 2 UNITS_PATTERN), spaces,
     Opt (alts [Seq (L ''de'') more_spaces, Seq (L ''d'') (A (In [CCh 39, CCh 39])),
                Seq (L ''of'') more_spaces]),
     spaces, Grp 3 (Plus Dot), Eol]"

text \<open>\<open>parse_ingredient\<close>.\<close>

definition parse_ingredient :: "pystr \<Rightarrow> error + Ingredient" where
  "parse_ingredient raw =
    (let text0 = py_strip raw
     in case re_match True NAME_FIRST_RE text0 of
          Some m \<Rightarrow>
            (case normalize_quantity (m 2) of
               Inl e \<Rightarrow> Inl e
             | Inr q \<Rightarrow>
                 Inr \<lparr>name = py_strip (the (m 1)), quantity = q, unit = normalize_unit (m 3),
                      quantity_numeric = parse_numeric_quantity (m 2), quantity_max = None\<rparr>)
        | None \<Rightarrow>
            (case re_match True QUANTITY_FIRST_RE text0 of
               Some m \<Rightarrow>
                 (case normalize_quantity (m 1) of
                    Inl e \<Rightarrow> Inl e
                  | Inr q \<Rightarrow>
                      Inr \<lparr>name = py_strip (the (m 3)), quantity = q, unit = normalize_unit (m 2),
                           quantity_numeric = parse_numeric_quantity (m 1), quantity_max = None\<rparr>)
             | None \<Rightarrow>
                 Inr \<lparr>name = text0, quantity = None, unit = None, quantity_numeric = None,
                      quantity_max = None\<rparr>))"

section \<open>Quantity erasure and ingredient mentions\<close>

definition article_vowels :: pystr where
  "article_vowels = u ''aeiouy'' @ [224, 226, 233, 232, 234, 235, 239, 238, 244, 249, 251, 252] @ u ''h''"

text \<open>\<open>_french_article\<close>.\<close>

definition french_article :: "pystr \<Rightarrow> pystr" where
  "french_article nm =
    (let low = lower_first nm
     in if low \<noteq> [] \<and> hd low \<in> set article_vowels then u ''l'' @ [39] @ low
        else u ''le '' @ low)"

definition fraction_glyphs :: "citem list" where
  "fraction_glyphs = [CCh 188, CCh 189, CCh 190, CCh 8531, CCh 8532]"

definition QTY_START :: rx where
  "QTY_START = cat
    [A (In (CDigit # fraction_glyphs)),
     Star (In ([CDigit, CCh 47, CCh 46, CCh 44] @ fraction_glyphs)), spaces]"

text \<open>The pattern of one ingredient; \<open>re.escape\<close> makes its name a literal.\<close>

definition quantity_pattern :: "pystr \<Rightarrow> rx" where
  "quantity_pattern nm = cat
    [QTY_START, Opt UNITS_PATTERN, spaces,
     Opt (Alt (Seq (L ''de'') more_spaces) (Seq (L ''d'') (Seq (A (In [CCh 39, CCh 39])) spaces))),
     Lit nm]"

text \<open>
  \<open>sorted(ingredients, key=lambda i: len(i.name), reverse=True)\<close>: the longest names
  first, ingredients with names of one length in their order in the list.
\<close>

definition sorted_ings :: "Ingredient list \<Rightarrow> Ingredient list" where
  "sorted_ings ings = rev (sort_key (\<lambda>i. length (name i)) (rev ings))"

text \<open>The loop of \<open>_strip_ingredient_quantities\<close> over the sorted ingredients.\<close>

fun strip_loop :: "pystr \<Rightarrow> Ingredient list \<Rightarrow> pystr \<Rightarrow> error + pystr" where
  "strip_loop t [] loc = Inr t"
| "strip_loop t (ing # ings) loc =
     (if name ing = [] then strip_loop t ings loc
      else (let replacement = (if is_fr loc then french_article (name ing)
                               else lower_first (name ing))
            in case re_sub_template True (quantity_pattern (name ing)) replacement t of
                 Inl e \<Rightarrow> Inl e
               | Inr t' \<Rightarrow> strip_loop t' ings loc))"

definition strip_ingredient_quantities :: "pystr \<Rightarrow> Ingredient list \<Rightarrow> pystr \<Rightarrow> error + pystr" where
  "strip_ingredient_quantities t ings loc = strip_loop t (sorted_ings ings) loc"

text \<open>\<open>_find_ingredient_mentions\<close>.\<close>

fun find_ingredient_mentions :: "pystr \<Rightarrow> Ingredient list \<Rightarrow> IngredientAnnotation list" where
  "find_ingredient_mentions step_text [] = []"
| "find_ingredient_mentions step_text (ing # ings) =
     (case py_find (py_lower (name ing)) (py_lower step_text) of
        Some idx \<Rightarrow>
          \<lparr>ia_position = \<lparr>offset = int idx, len = int (length (name ing))\<rparr>, ingredient = ing\<rparr>
          # find_ingredient_mentions step_text ings
      | None \<Rightarrow> find_ingredient_mentions step_text ings)"

section \<open>Tools (_detect_tools)\<close>

fun triggered_tools :: "(pystr \<times> pystr list) list \<Rightarrow> pystr \<Rightarrow> pystr list" where
  "triggered_tools [] t = []"
| "triggered_tools ((tool_name, keywords) # tks) t =
     (if list_ex (\<lambda>kw. py_in kw t) keywords then tool_name # triggered_tools tks t
      else triggered_tools tks t)"

definition detect_tools :: "pystr list \<Rightarrow> pystr list" where
  "detect_tools instrs =
    (let text0 = strip_accents (py_lower (py_join (u '' '') instrs))
     in u ''TM7'' # triggered_tools TOOL_KEYWORDS text0)"

section \<open>Recipes (convert_recipe)\<close>

text \<open>A list comprehension over a function that can raise: the first exception ends it.\<close>

fun map_result :: "('a \<Rightarrow> error + 'b) \<Rightarrow> 'a list \<Rightarrow> error + 'b list" where
  "map_result f [] = Inr []"
| "map_result f (x # xs) =
     (case f x of
        Inl e \<Rightarrow> Inl e
      | Inr y \<Rightarrow> (case map_result f xs of Inl e \<Rightarrow> Inl e | Inr ys \<Rightarrow> Inr (y # ys)))"

text \<open>
  The body of the loop over the steps: the description loses its quantities, and the
  ingredient mentions are found in the text of the step.  The parameter annotation,
  built by \<open>convert_step\<close>, stays as it is.
\<close>

definition link_step :: "Ingredient list \<Rightarrow> pystr \<Rightarrow> ThermomixStep \<Rightarrow> error + ThermomixStep" where
  "link_step ings loc st =
    (case strip_ingredient_quantities (description st) ings loc of
       Inl e \<Rightarrow> Inl e
     | Inr d \<Rightarrow>
         (let st' = st\<lparr>description := d\<rparr>;
              step_text = to_text st' loc
          in Inr (st'\<lparr>ingredient_annotations := find_ingredient_mentions step_text ings\<rparr>)))"

definition int_or :: "int option \<Rightarrow> int \<Rightarrow> int" where
  "int_or x d = (case x of None \<Rightarrow> d | Some n \<Rightarrow> if n \<noteq> 0 then n else d)"

definition convert_recipe_in :: "pystr list \<Rightarrow> ScrapedRecipe \<Rightarrow> pystr \<Rightarrow> error + ThermomixRecipe" where
  "convert_recipe_in ks scraped loc =
    (case map_result parse_ingredient (sr_ingredients scraped) of
       Inl e \<Rightarrow> Inl e
     | Inr ings \<Rightarrow>
         (case map_result (\<lambda>step. convert_step_in ks step loc) (instructions scraped) of
            Inl e \<Rightarrow> Inl e
          | Inr steps0 \<Rightarrow>
              (case map_result (link_step ings loc) steps0 of
                 Inl e \<Rightarrow> Inl e
               | Inr steps1 \<Rightarrow>
                   Inr \<lparr>recipe_name = title scraped,
                        ingredients = ings,
                        steps = steps1,
                        servings = int_or (sr_servings scraped) 4,
                        prep_time_minutes = int_or (prep_time scraped) 15,
                        total_time_minutes = int_or (total_time scraped) 45,
                        hints = (if sr_source_url scraped \<noteq> []
                                 then [u ''Original recipe: '' @ sr_source_url scraped] else []),
                        source_url = sr_source_url scraped,
                        tools = detect_tools (instructions scraped),
                        recipe_locale = loc\<rparr>)))"

definition convert_recipe :: "ScrapedRecipe \<Rightarrow> pystr \<Rightarrow> error + ThermomixRecipe" where
  "convert_recipe scraped loc = convert_recipe_in TURBO_KEYWORDS scraped loc"

section \<open>The payload (to_cookidoo_payload)\<close>

text \<open>
  The annotation dictionaries: \<open>INGREDIENT\<close> with its position and text, \<open>TTS\<close> with its
  position and the keys \<open>speed\<close>, \<open>time\<close> and \<open>temperature\<close> (value and unit) of \<open>data\<close>, each
  present or not.
\<close>

datatype annotation =
    IngredientDict int int pystr
  | TTSDict int int "pystr option" "int option" "(pystr \<times> pystr) option"

definition tts_to_cookidoo_annotation :: "TTSAnnotation \<Rightarrow> annotation" where
  "tts_to_cookidoo_annotation a =
    TTSDict (offset (position a)) (len (position a)) (tts_speed a) (tts_time a)
      (case temperature_value a of None \<Rightarrow> None | Some v \<Rightarrow> Some (v, temperature_unit a))"

definition ingredient_to_cookidoo_annotation :: "IngredientAnnotation \<Rightarrow> pystr \<Rightarrow> annotation" where
  "ingredient_to_cookidoo_annotation a loc =
    IngredientDict (offset (ia_position a)) (len (ia_position a))
      (ingredient_to_text (ingredient a) loc)"

text \<open>\<open>ThermomixStep.build_annotations\<close>.\<close>

definition build_annotations :: "ThermomixStep \<Rightarrow> pystr \<Rightarrow> annotation list" where
  "build_annotations st loc =
    map (\<lambda>a. ingredient_to_cookidoo_annotation a loc) (ingredient_annotations st)
    @ map tts_to_cookidoo_annotation (tts_annotations st)"

record step_dict =
  sd_text :: pystr
  sd_annotations :: "annotation list"

record payload =
  pl_name :: pystr
  pl_image :: "pystr option"
  pl_tools :: "pystr list"
  pl_yield_value :: int
  pl_yield_unitText :: pystr
  prepTime :: int
  cookTime :: int
  totalTime :: int
  pl_ingredients :: "pystr list"
  pl_instructions :: "step_dict list"
  pl_hints :: pystr
  workStatus :: pystr
  requiresAnnotationsCheck :: bool

definition to_cookidoo_payload :: "ThermomixRecipe \<Rightarrow> payload" where
  "to_cookidoo_payload r =
    (let lang = recipe_locale r
     in \<lparr>pl_name = recipe_name r,
         pl_image = None,
         pl_tools = tools r,
         pl_yield_value = servings r,
         pl_yield_unitText = (if is_fr lang then u ''portion'' else u ''serving''),
         prepTime = prep_time_minutes r * 60,
         cookTime = 0,
         totalTime = total_time_minutes r * 60,
         pl_ingredients = map (\<lambda>ing. ingredient_to_text ing lang) (ingredients r),
         pl_instructions =
           map (\<lambda>st. \<lparr>sd_text = to_text st lang, sd_annotations = build_annotations st lang\<rparr>)
             (steps r),
         pl_hints = (if hints r \<noteq> [] then py_join [10] (hints r) else []),
         workStatus = u ''PRIVATE'',
         requiresAnnotationsCheck = False\<rparr>)"

section \<open>Predicates and example inputs of the statements\<close>

text \<open>A recipe of one ingredient and one step, its ingredient and its step as converted.\<close>

definition mixer_step :: ThermomixStep where
  "mixer_step =
     \<lparr>description = u ''Mixer 200 g de farine'', duration_seconds = Some 30, temperature = None,
      speed = Some 8, reverse = False, is_turbo = False, is_varoma = False,
      tts_annotations =
        [\<lparr>position = \<lparr>offset = 22, len = 16\<rparr>, tts_speed = Some (u ''8''), tts_time = Some 30,
          temperature_value = None, temperature_unit = u ''C''\<rparr>],
      ingredient_annotations = []\<rparr>"

definition farine :: Ingredient where
  "farine = \<lparr>name = u ''farine'', quantity = Some (u ''200''), unit = Some (u ''g''),
              quantity_numeric = Some (Fin 200), quantity_max = None\<rparr>"

definition mixer_recipe :: ScrapedRecipe where
  "mixer_recipe =
     \<lparr>title = u ''Pate'', sr_ingredients = [u ''200 g de farine''],
      instructions = [u ''Mixer 200 g de farine''], total_time = None, prep_time = Some 10,
      cook_time = Some 20, sr_servings = None, image_url = None, sr_source_url = []\<rparr>"

definition both_flags_step :: ThermomixStep where
  "both_flags_step =
     \<lparr>description = u ''Cuire'', duration_seconds = Some 90, temperature = Some 100,
      speed = Some 5, reverse = False, is_turbo = True, is_varoma = True,
      tts_annotations = [], ingredient_annotations = []\<rparr>"

text \<open>Whether a keyword of the tool \<open>nm\<close> occurs in the text.\<close>

definition tool_triggered :: "pystr \<Rightarrow> pystr \<Rightarrow> bool" where
  "tool_triggered nm t =
    (case map_of TOOL_KEYWORDS nm of
       Some kws \<Rightarrow> list_ex (\<lambda>kw. py_in kw t) kws
     | None \<Rightarrow> False)"

text \<open>The text that \<open>_detect_tools\<close> searches.\<close>

definition tool_text :: "pystr list \<Rightarrow> pystr" where
  "tool_text instrs = strip_accents (py_lower (py_join (u '' '') instrs))"

definition oven_and_steam :: "pystr list" where
  "oven_and_steam = [u ''Pr'' @ [233] @ u ''chauffer le four.'', u ''Cuire a la vapeur.'']"

definition oven_and_basket :: "pystr list" where
  "oven_and_basket = [u ''Bake in the steam basket'']"

definition turbo_plain :: pystr where
  "turbo_plain = u ''Mixer finement''"

definition turbo_steam :: pystr where
  "turbo_steam = u ''Mixer finement au varoma a 100'' @ [176] @ u ''C''"

definition turbo_timed :: pystr where
  "turbo_timed = u ''Mixer finement 20 secondes''"

definition hot_step :: pystr where
  "hot_step = u ''Cuire a 180'' @ [176] @ u ''C pendant 10 minutes''"

definition steam_hot_step :: pystr where
  "steam_hot_step = u ''Cuire au varoma a 180'' @ [176] @ u ''C pendant 10 minutes''"

definition cold_text :: pystr where
  "cold_text = u ''Ajouter de l eau a 20'' @ [176] @ u ''C''"

definition ellipsis_step :: pystr where
  "ellipsis_step = u ''Servir...''"

section \<open>Evaluation\<close>

text \<open>The equations that evaluate the model on a given text.\<close>

lemmas char_ev = u_def is_space_def is_digit_def is_word_def lower_cp_def ch_eq_def
  is_word_opt_def next_ch_def
lemmas rx_ev = L_def cat_def spaces_def digits_def more_spaces_def opt_s_def opt_class_s_def
  re_search_def re_match_def rx_at_def vitesse_or_speed_def digits_or_dots_def

lemmas sub_ev = re_sub_def re_sub_template_def sub_from.simps

lemmas float_ev = py_float_def digits_value_def double_of_frac_def ilog2_def nbits.simps rhe_div_def
  pow2_def py_round_def round_half_even_def py_int_of_float_def Let_def

lemmas int_ev = py_int_def int_space_def digits_value_def is_digit_def Let_def

subsection \<open>Totality (C2)\<close>

lemma speed_dot: "parse_speed_from_text (u ''Augmenter la vitesse.'') = Inl ValueError"
  by (simp add: parse_speed_from_text_def SPEED_RE_def char_ev rx_ev py_float_def)

lemma vitesse_temperature: "parse_temperature_from_text (u ''Augmenter la vitesse.'') = Inr None"
  by (simp add: parse_temperature_from_text_def TEMPERATURE_RE_def char_ev rx_ev)

lemma vitesse_duration: "parse_duration_from_text (u ''Augmenter la vitesse.'') = Inr None"
  by (simp add: parse_duration_from_text_def MINUTES_RE_def SECONDS_RE_def HOURS_RE_def
      py_lower_def char_ev rx_ev)

lemma convert_step_raises:
  assumes "v_is_varoma (keyword_tiers ks t) \<or> parse_temperature_from_text t = Inr tp"
    and "parse_duration_from_text t = Inr d"
    and "parse_speed_from_text t = Inl e"
  shows "convert_step_in ks t loc = Inl e"
  using assms by (auto simp: convert_step_in_def Let_def)

text \<open>
  C2 (every input gives a value, never an exception) fails: \<open>_parse_speed_from_text\<close>
  passes what \<open>[\d.]+\<close> captured to \<open>float\<close> without a guard, and a lone point is no
  number.  The step "Augmenter la vitesse." makes \<open>convert_step\<close> raise \<open>ValueError\<close>.
\<close>

theorem convert_step_raises_on_lone_dot:
  "convert_step (u ''Augmenter la vitesse.'') (u ''fr'') = Inl ValueError"
  unfolding convert_step_def
  by (rule convert_step_raises [OF disjI2 [OF vitesse_temperature] vitesse_duration speed_dot])

subsection \<open>The ingredient grammars (C7)\<close>

lemma strip_farine: "py_strip (u ''200 g de farine'') = u ''200 g de farine''"
  by (simp add: py_strip_def char_ev)


lemma farine_name_first: "re_match True NAME_FIRST_RE (u ''200 g de farine'') = None"
  by (simp add: NAME_FIRST_RE_def UNITS_PATTERN_def qty_chars_def char_ev rx_ev)

lemma farine_quantity_first:
  "\<exists>m. re_match True QUANTITY_FIRST_RE (u ''200 g de farine'') = Some m
     \<and> m 1 = Some (u ''200'') \<and> m 2 = Some (u ''g'') \<and> m 3 = Some (u ''farine'')"
  by (simp add: QUANTITY_FIRST_RE_def UNITS_PATTERN_def qty_chars_def char_ev rx_ev)


lemma numeric_200: "parse_numeric_quantity (Some (u ''200'')) = Some (Fin 200)"
  by (simp add: parse_numeric_quantity_def py_strip_def py_replace_def char_ev float_ev)


lemma quantity_200: "normalize_quantity (Some (u ''200'')) = Inr (Some (u ''200''))"
  by (simp add: normalize_quantity_def FRACTION_MAP_def format_2g_def py_strip_def py_replace_def char_ev float_ev)


lemma unit_g: "normalize_unit (Some (u ''g'')) = Some (u ''g'')"
  by (simp add: normalize_unit_def UNIT_MAP_def py_lower_def char_ev)

lemma strip_name_farine: "py_strip (u ''farine'') = u ''farine''"
  by (simp add: py_strip_def char_ev)


lemma parse_farine:
  "parse_ingredient (u ''200 g de farine'') =
     Inr \<lparr>name = u ''farine'', quantity = Some (u ''200''), unit = Some (u ''g''),
          quantity_numeric = Some (Fin 200), quantity_max = None\<rparr>"
proof -
  obtain m where m: "re_match True QUANTITY_FIRST_RE (u ''200 g de farine'') = Some m"
    "m 1 = Some (u ''200'')" "m 2 = Some (u ''g'')" "m 3 = Some (u ''farine'')"
    using farine_quantity_first by blast
  from m(2) have m1: "m (Suc 0) = Some (u ''200'')" by simp
  show ?thesis
    by (simp add: parse_ingredient_def Let_def strip_farine farine_name_first m m1
        quantity_200 unit_g numeric_200 strip_name_farine)
qed





subsection \<open>A whole recipe (C1)\<close>

lemma mixer_normalized:
  "strip_accents (py_lower (u ''Mixer 200 g de farine'')) = u ''mixer 200 g de farine''"
  by (simp add: strip_accents_def py_lower_def nfkd_no_marks_def char_ev)

lemma mixer_turbo: "turbo_scan TURBO_KEYWORDS (u ''mixer 200 g de farine'') = (False, None)"
  by (simp add: TURBO_KEYWORDS_def char_ev)

lemma mixer_cooking: "first_keyword COOKING_KEYWORDS (u ''mixer 200 g de farine'') = None"
  by (simp add: COOKING_KEYWORDS_def char_ev)

lemma mixer_mixing:
  "first_keyword MIXING_KEYWORDS (u ''mixer 200 g de farine'') = Some (mixing 8 30)"
  by (simp add: MIXING_KEYWORDS_def char_ev)

lemma mixer_varoma: "is_varoma_temperature (u ''Mixer 200 g de farine'') = False"
  by (simp add: is_varoma_temperature_def VAROMA_RE_def py_lower_def char_ev rx_ev)

lemma mixer_temperature: "parse_temperature_from_text (u ''Mixer 200 g de farine'') = Inr None"
  by (simp add: parse_temperature_from_text_def TEMPERATURE_RE_def char_ev rx_ev)

lemma mixer_duration: "parse_duration_from_text (u ''Mixer 200 g de farine'') = Inr None"
  by (simp add: parse_duration_from_text_def MINUTES_RE_def SECONDS_RE_def HOURS_RE_def
      py_lower_def char_ev rx_ev)

lemma mixer_speed: "parse_speed_from_text (u ''Mixer 200 g de farine'') = Inr None"
  by (simp add: parse_speed_from_text_def SPEED_RE_def char_ev rx_ev)

lemma mixer_sub_old_tts: "re_sub True OLD_TTS_RE (u '' '') (u ''Mixer 200 g de farine'') = u ''Mixer 200 g de farine''"
  by (simp add: OLD_TTS_RE_def sub_ev char_ev rx_ev)
lemma mixer_sub_tts_text: "re_sub True TTS_TEXT_RE (u '' '') (u ''Mixer 200 g de farine'') = u ''Mixer 200 g de farine''"
  by (simp add: TTS_TEXT_RE_def sub_ev char_ev rx_ev)
lemma mixer_sub_in_thermomix: "re_sub True IN_THERMOMIX_RE (u ''dans le bol'') (u ''Mixer 200 g de farine'') = u ''Mixer 200 g de farine''"
  by (simp add: IN_THERMOMIX_RE_def sub_ev char_ev rx_ev)
lemma mixer_sub_of_thermomix: "re_sub True OF_THERMOMIX_RE [] (u ''Mixer 200 g de farine'') = u ''Mixer 200 g de farine''"
  by (simp add: OF_THERMOMIX_RE_def sub_ev char_ev rx_ev)
lemma mixer_sub_spaces: "re_sub False more_spaces (u '' '') (u ''Mixer 200 g de farine'') = u ''Mixer 200 g de farine''"
  by (simp add: sub_ev char_ev rx_ev)
lemma mixer_sub_two_dots: "re_sub False TWO_DOTS_RE (u ''.'') (u ''Mixer 200 g de farine'') = u ''Mixer 200 g de farine''"
  by (simp add: TWO_DOTS_RE_def sub_ev char_ev rx_ev)

lemma mixer_strip: "py_strip (u ''Mixer 200 g de farine'') = u ''Mixer 200 g de farine''"
  by (simp add: py_strip_def char_ev)

lemma mixer_clean: "clean_description (u ''Mixer 200 g de farine'') = u ''Mixer 200 g de farine''"
  by (simp add: clean_description_def Let_def mixer_sub_old_tts mixer_sub_tts_text
      mixer_sub_in_thermomix mixer_sub_of_thermomix mixer_sub_spaces mixer_strip
      mixer_sub_two_dots)

lemma mixer_tiers:
  "keyword_tiers TURBO_KEYWORDS (u ''Mixer 200 g de farine'') =
     \<lparr>v_speed = Some 8, v_temperature = None, v_duration = Some 30, v_reverse = False,
      v_is_turbo = False, v_is_varoma = False\<rparr>"
  by (simp add: keyword_tiers_def Let_def mixer_normalized mixer_turbo cooking_tier_def
      mixing_tier_def mixer_cooking mixer_mixing mixer_varoma mixing_def)

lemma mixer_tts:
  "tts_text \<lparr>description = d, duration_seconds = Some 30, temperature = None,
      speed = Some 8, reverse = False, is_turbo = False, is_varoma = False,
      tts_annotations = a, ingredient_annotations = b\<rparr> (u ''fr'') = Some (u ''30 sec/vitesse 8'')"
  by (simp add: tts_text_def tts_details_def truthy_int_def time_str_def py_str_def
      nat_digits.simps is_fr_def u_def)

lemma mixer_annotation:
  "build_tts_annotation_from_step \<lparr>description = u ''Mixer 200 g de farine'',
      duration_seconds = Some 30, temperature = None,
      speed = Some 8, reverse = False, is_turbo = False, is_varoma = False,
      tts_annotations = [], ingredient_annotations = []\<rparr> (u ''fr'') =
   Some \<lparr>position = \<lparr>offset = 22, len = 16\<rparr>, tts_speed = Some (u ''8''), tts_time = Some 30,
          temperature_value = None, temperature_unit = u ''C''\<rparr>"
  unfolding build_tts_annotation_from_step_def mixer_tts
  by (simp add: truthy_int_def py_str_def nat_digits.simps u_def)

lemma mixer_convert_step:
  "convert_step_in TURBO_KEYWORDS (u ''Mixer 200 g de farine'') (u ''fr'') = Inr mixer_step"
  by (simp add: convert_step_in_def Let_def mixer_tiers mixer_temperature mixer_duration
      mixer_speed mixer_clean mixer_annotation truthy_int_def mixer_step_def)

lemma mixer_erase:
  "strip_ingredient_quantities (u ''Mixer 200 g de farine'') [farine] (u ''fr'') =
     Inr (u ''Mixer le farine'')"
  by (simp add: strip_ingredient_quantities_def sorted_ings_def farine_def is_fr_def
      french_article_def lower_first_def article_vowels_def quantity_pattern_def QTY_START_def
      fraction_glyphs_def UNITS_PATTERN_def sub_ev char_ev rx_ev)

lemma mixer_mentions:
  "find_ingredient_mentions (u ''Mixer le farine 30 sec/vitesse 8'') [farine] =
     [\<lparr>ia_position = \<lparr>offset = 9, len = 6\<rparr>, ingredient = farine\<rparr>]"
  by (simp add: farine_def py_lower_def char_ev)

lemma mixer_link:
  "link_step [farine] (u ''fr'') mixer_step =
     Inr (mixer_step\<lparr>description := u ''Mixer le farine'',
            ingredient_annotations := [\<lparr>ia_position = \<lparr>offset = 9, len = 6\<rparr>, ingredient = farine\<rparr>]\<rparr>)"
proof -
  have d: "description mixer_step = u ''Mixer 200 g de farine''"
    by (simp add: mixer_step_def)
  have t: "to_text (mixer_step\<lparr>description := u ''Mixer le farine''\<rparr>) (u ''fr'') =
             u ''Mixer le farine 30 sec/vitesse 8''"
    unfolding to_text_def mixer_step_def by (simp add: mixer_tts, simp add: u_def)
  show ?thesis
    unfolding link_step_def d mixer_erase
    by (simp add: Let_def t mixer_mentions del: find_ingredient_mentions.simps)
qed

lemma mixer_tools: "detect_tools [u ''Mixer 200 g de farine''] = [u ''TM7'']"
  unfolding detect_tools_def Let_def py_join.simps mixer_normalized
  by (simp add: TOOL_KEYWORDS_def char_ev)

lemma mixer_convert_recipe:
  "convert_recipe_in TURBO_KEYWORDS mixer_recipe (u ''fr'') =
     Inr \<lparr>recipe_name = u ''Pate'', ingredients = [farine],
          steps = [mixer_step\<lparr>description := u ''Mixer le farine'',
                     ingredient_annotations :=
                       [\<lparr>ia_position = \<lparr>offset = 9, len = 6\<rparr>, ingredient = farine\<rparr>]\<rparr>],
          servings = 4, prep_time_minutes = 10, total_time_minutes = 45, hints = [],
          source_url = [], tools = [u ''TM7''], recipe_locale = u ''fr''\<rparr>"
  by (simp add: convert_recipe_in_def mixer_recipe_def parse_farine farine_def [symmetric]
      mixer_convert_step mixer_link mixer_tools int_or_def)

text \<open>
  C1 (the parameter annotation is positioned in the final text of the step: its offset
  is the length of the final description plus one) fails.  \<open>convert_step\<close> builds the
  annotation from the cleaned description; \<open>convert_recipe\<close> then erases the quantities
  from the description and does not build the annotation again.  For the ingredient
  "200 g de farine" and the step "Mixer 200 g de farine" the final text is
  "Mixer le farine 30 sec/vitesse 8", of length 32, whose suffix starts at 16; the
  annotation says offset 22 and length 16.
\<close>

theorem tts_offset_stale_after_erasure:
  "\<exists>r st a. convert_recipe mixer_recipe (u ''fr'') = Inr r \<and> steps r = [st]
      \<and> tts_annotations st = [a]
      \<and> to_text st (u ''fr'') = u ''Mixer le farine 30 sec/vitesse 8''
      \<and> int (length (description st)) + 1 = 16
      \<and> int (length (to_text st (u ''fr''))) = 32
      \<and> offset (position a) = 22 \<and> len (position a) = 16"
proof -
  have t: "to_text (mixer_step\<lparr>description := u ''Mixer le farine'',
                ingredient_annotations :=
                  [\<lparr>ia_position = \<lparr>offset = 9, len = 6\<rparr>, ingredient = farine\<rparr>]\<rparr>) (u ''fr'') =
             u ''Mixer le farine 30 sec/vitesse 8''"
    unfolding to_text_def mixer_step_def by (simp add: mixer_tts, simp add: u_def)
  show ?thesis
    unfolding convert_recipe_def mixer_convert_recipe
    by (simp add: t) (simp add: mixer_step_def u_def)
qed

subsection \<open>The order of the turbo keywords (C3)\<close>

lemma turbo_scan_set:
  "turbo_scan ks t = (if list_ex (\<lambda>kw. py_in kw t) ks then (True, Some 15) else (False, None))"
  by (induction ks) auto

lemma turbo_scan_order: "set ks = set ks' \<Longrightarrow> turbo_scan ks t = turbo_scan ks' t"
  by (simp add: turbo_scan_set list_ex_iff)

lemma keyword_tiers_order: "set ks = set ks' \<Longrightarrow> keyword_tiers ks t = keyword_tiers ks' t"
  by (simp add: keyword_tiers_def turbo_scan_order [of ks ks'])

lemma convert_step_in_order:
  "set ks = set ks' \<Longrightarrow> convert_step_in ks t loc = convert_step_in ks' t loc"
  by (simp add: convert_step_in_def keyword_tiers_order [of ks ks'])

lemma convert_recipe_in_order:
  assumes "set ks = set ks'"
  shows "convert_recipe_in ks scraped loc = convert_recipe_in ks' scraped loc"
proof -
  have f: "(\<lambda>step. convert_step_in ks step loc) = (\<lambda>step. convert_step_in ks' step loc)"
    using convert_step_in_order [OF assms] by auto
  show ?thesis
    unfolding convert_recipe_in_def f ..
qed

text \<open>
  C3: two runs of \<open>convert_recipe\<close> on equal records and locales give equal results,
  field for field.  The one thing that can differ between two runs is the order in
  which the set of turbo keywords is read; the result does not depend on it.
\<close>

theorem convert_recipe_deterministic:
  "set ks = set ks' \<and> scraped = scraped' \<and> loc = loc'
   \<longrightarrow> convert_recipe_in ks scraped loc = convert_recipe_in ks' scraped' loc'"
  using convert_recipe_in_order by blast

theorem convert_recipe_deterministic_witness:
  "set (rev TURBO_KEYWORDS) = set TURBO_KEYWORDS
   \<and> convert_recipe_in (rev TURBO_KEYWORDS) mixer_recipe (u ''fr'')
       = convert_recipe_in TURBO_KEYWORDS mixer_recipe (u ''fr'')"
  using convert_recipe_deterministic [of "rev TURBO_KEYWORDS" TURBO_KEYWORDS mixer_recipe
      mixer_recipe "u ''fr''" "u ''fr''"]
  by simp

subsection \<open>The cooking time (C10)\<close>

text \<open>
  C10: the payload's \<open>cookTime\<close> is 0; the \<open>cook_time\<close> of the scraped record changes
  nothing in the converted recipe, hence nothing in its payload; the preparation
  time and the total time are carried through (with their defaults, 15 and 45
  minutes), in seconds.
\<close>

theorem cook_time_unused:
  "cookTime (to_cookidoo_payload r) = 0
   \<and> convert_recipe (scraped\<lparr>cook_time := c\<rparr>) loc = convert_recipe scraped loc
   \<and> map_sum id to_cookidoo_payload (convert_recipe (scraped\<lparr>cook_time := c\<rparr>) loc)
       = map_sum id to_cookidoo_payload (convert_recipe scraped loc)
   \<and> (\<forall>r'. convert_recipe scraped loc = Inr r' \<longrightarrow>
         prepTime (to_cookidoo_payload r') = int_or (prep_time scraped) 15 * 60
         \<and> totalTime (to_cookidoo_payload r') = int_or (total_time scraped) 45 * 60)"
proof -
  have 1: "convert_recipe (scraped\<lparr>cook_time := c\<rparr>) loc = convert_recipe scraped loc"
    by (simp add: convert_recipe_def convert_recipe_in_def split: sum.splits)
  have 2: "\<forall>r'. convert_recipe scraped loc = Inr r' \<longrightarrow>
         prepTime (to_cookidoo_payload r') = int_or (prep_time scraped) 15 * 60
         \<and> totalTime (to_cookidoo_payload r') = int_or (total_time scraped) 45 * 60"
    by (auto simp: convert_recipe_def convert_recipe_in_def to_cookidoo_payload_def Let_def
        split: sum.splits)
  show ?thesis
    using 1 2 by (simp add: to_cookidoo_payload_def Let_def)
qed

theorem cook_time_unused_witness:
  "(\<exists>r. convert_recipe mixer_recipe (u ''fr'') = Inr r
       \<and> convert_recipe (mixer_recipe\<lparr>cook_time := Some 99\<rparr>) (u ''fr'') = Inr r
       \<and> cookTime (to_cookidoo_payload r) = 0
       \<and> prepTime (to_cookidoo_payload r) = 600
       \<and> totalTime (to_cookidoo_payload r) = 2700)"
proof -
  obtain r where r: "convert_recipe mixer_recipe (u ''fr'') = Inr r"
    by (simp add: convert_recipe_def mixer_convert_recipe)
  have p: "prep_time mixer_recipe = Some 10" "total_time mixer_recipe = None"
    by (simp_all add: mixer_recipe_def)
  from cook_time_unused [where r = r and scraped = mixer_recipe and c = "Some 99"
      and loc = "u ''fr''"] r
  show ?thesis by (simp add: p int_or_def)
qed

subsection \<open>Markers in the rendered parameters (C8)\<close>

lemma nat_digits_nonempty: "nat_digits n \<noteq> []"
  by (subst nat_digits.simps) simp

lemma nat_digits_hd: "is_digit (hd (nat_digits n))"
proof (induction n rule: nat_digits.induct)
  case (1 n)
  show ?case
  proof (cases "n < 10")
    case True
    then show ?thesis by (subst nat_digits.simps) (simp add: is_digit_def)
  next
    case False
    with 1 show ?thesis
      by (subst nat_digits.simps) (simp add: nat_digits_nonempty)
  qed
qed

lemma py_str_nonempty: "py_str i \<noteq> []"
  by (simp add: py_str_def nat_digits_nonempty)

lemma py_str_hd: "hd (py_str i) = 45 \<or> is_digit (hd (py_str i))"
  by (simp add: py_str_def nat_digits_hd)

lemma time_str_hd: "time_str d \<noteq> [] \<and> (hd (time_str d) = 45 \<or> is_digit (hd (time_str d)))"
  using py_str_hd [of "d div 60"] py_str_hd [of "d mod 60"]
  by (auto simp: time_str_def Let_def py_str_nonempty)

lemma starts_like_number:
  assumes "xs \<noteq> []" "hd xs = 45 \<or> is_digit (hd xs)"
  shows "xs \<noteq> 84 # r" "xs \<noteq> 86 # r" "xs \<noteq> 115 # r" "xs \<noteq> 118 # r"
  using assms by (cases xs; auto simp: is_digit_def)+

lemma time_str_not_marker:
  "time_str d \<noteq> 84 # r" "time_str d \<noteq> 86 # r" "time_str d \<noteq> 115 # r" "time_str d \<noteq> 118 # r"
  using time_str_hd [of d] starts_like_number [of "time_str d" r] by blast+

lemma temperature_not_marker:
  "py_str t @ [176, 67] \<noteq> 84 # r" "py_str t @ [176, 67] \<noteq> 86 # r"
  "py_str t @ [176, 67] \<noteq> 115 # r" "py_str t @ [176, 67] \<noteq> 118 # r"
  using py_str_hd [of t] py_str_nonempty [of t]
    starts_like_number [of "py_str t @ [176, 67]" r] by auto

lemma py_str_not_marker: "py_str n \<noteq> 84 # r" "py_str n \<noteq> 118 # r"
  using py_str_hd [of n] py_str_nonempty [of n] starts_like_number [of "py_str n" r] by auto

lemma time_str_last: "last (time_str d) = 99 \<or> last (time_str d) = 110"
  by (simp add: time_str_def Let_def u_def)

lemma time_str_not_temperature: "time_str d \<noteq> xs @ [176, 67]"
proof
  assume "time_str d = xs @ [176, 67]"
  then have "last (time_str d) = 67" by simp
  with time_str_last [of d] show False by simp
qed

lemma details_exclusive_speed:
  "\<not> (u ''Turbo'' \<in> set (tts_details st loc)
      \<and> (\<exists>n. (if is_fr loc then u ''vitesse'' else u ''speed'') @ u '' '' @ py_str n
               \<in> set (tts_details st loc)))"
  by (auto simp: tts_details_def u_def time_str_not_marker temperature_not_marker
      time_str_not_marker [symmetric] temperature_not_marker [symmetric])

lemma details_exclusive_temperature:
  "\<not> (u ''Varoma'' \<in> set (tts_details st loc)
      \<and> (\<exists>n. py_str n @ [176, 67] \<in> set (tts_details st loc)))"
  by (auto simp: tts_details_def u_def time_str_not_marker temperature_not_marker
      time_str_not_marker [symmetric] temperature_not_marker [symmetric]
      time_str_not_temperature time_str_not_temperature [symmetric])

lemma details_flags:
  "(is_turbo st \<longrightarrow> u ''Turbo'' \<in> set (tts_details st loc))
   \<and> (is_varoma st \<longrightarrow> u ''Varoma'' \<in> set (tts_details st loc))"
  by (simp add: tts_details_def)

lemma annotation_exclusive:
  "build_tts_annotation_from_step st loc = Some a \<Longrightarrow>
     tts_speed a = (if is_turbo st then Some (u ''Turbo'')
                    else if truthy_int (speed st) then Some (py_str (the (speed st))) else None)
     \<and> temperature_value a =
         (if is_varoma st then Some (u ''varoma'')
          else if truthy_int (temperature st) then Some (py_str (the (temperature st)))
          else None)
     \<and> (\<forall>n. py_str n \<noteq> u ''Turbo'' \<and> py_str n \<noteq> u ''varoma'')"
  by (auto simp: build_tts_annotation_from_step_def u_def py_str_not_marker
      split: option.splits if_splits)

text \<open>
  C8: in the parameter suffix of a step (the parts that \<open>tts_text\<close> joins with "/") the
  turbo marker and a numeric speed never stand together, nor do the steam marker and a
  numeric temperature; a step whose turbo flag is set renders the turbo marker, and one
  whose steam flag is set renders the steam marker, whatever its numeric fields hold.
  The annotation built from the step carries the marker under the same conditions, and
  a marker is never the text of a number.
\<close>

theorem rendering_exclusive:
  "tts_text st loc =
     (if tts_details st loc \<noteq> [] then Some (py_join (u ''/'') (tts_details st loc)) else None)
   \<and> \<not> (u ''Turbo'' \<in> set (tts_details st loc)
        \<and> (\<exists>n. (if is_fr loc then u ''vitesse'' else u ''speed'') @ u '' '' @ py_str n
                 \<in> set (tts_details st loc)))
   \<and> \<not> (u ''Varoma'' \<in> set (tts_details st loc)
        \<and> (\<exists>n. py_str n @ [176, 67] \<in> set (tts_details st loc)))
   \<and> (is_turbo st \<longrightarrow> u ''Turbo'' \<in> set (tts_details st loc))
   \<and> (is_varoma st \<longrightarrow> u ''Varoma'' \<in> set (tts_details st loc))
   \<and> (\<forall>a. build_tts_annotation_from_step st loc = Some a \<longrightarrow>
          (is_turbo st \<longrightarrow> tts_speed a = Some (u ''Turbo''))
        \<and> (is_varoma st \<longrightarrow> temperature_value a = Some (u ''varoma''))
        \<and> (\<forall>n. tts_speed a = Some (py_str n) \<longrightarrow> \<not> is_turbo st)
        \<and> (\<forall>n. temperature_value a = Some (py_str n) \<longrightarrow> \<not> is_varoma st))"
proof (intro conjI allI impI)
  show "tts_text st loc =
     (if tts_details st loc \<noteq> [] then Some (py_join (u ''/'') (tts_details st loc)) else None)"
    by (simp add: tts_text_def Let_def)
  show "\<not> (u ''Turbo'' \<in> set (tts_details st loc)
        \<and> (\<exists>n. (if is_fr loc then u ''vitesse'' else u ''speed'') @ u '' '' @ py_str n
                 \<in> set (tts_details st loc)))"
    by (rule details_exclusive_speed)
  show "\<not> (u ''Varoma'' \<in> set (tts_details st loc)
        \<and> (\<exists>n. py_str n @ [176, 67] \<in> set (tts_details st loc)))"
    by (rule details_exclusive_temperature)
next
  assume "is_turbo st"
  then show "u ''Turbo'' \<in> set (tts_details st loc)" using details_flags by blast
next
  assume "is_varoma st"
  then show "u ''Varoma'' \<in> set (tts_details st loc)" using details_flags by blast
next
  fix a assume a: "build_tts_annotation_from_step st loc = Some a"
  note ex = annotation_exclusive [OF a]
  { assume "is_turbo st" with ex show "tts_speed a = Some (u ''Turbo'')" by simp }
  { assume "is_varoma st" with ex show "temperature_value a = Some (u ''varoma'')" by simp }
  { fix n assume "tts_speed a = Some (py_str n)"
    with ex show "\<not> is_turbo st" by (auto split: if_splits) }
  { fix n assume "temperature_value a = Some (py_str n)"
    with ex show "\<not> is_varoma st" by (auto split: if_splits) }
qed

theorem rendering_exclusive_witness:
  "is_turbo both_flags_step \<and> speed both_flags_step = Some 5
   \<and> is_varoma both_flags_step \<and> temperature both_flags_step = Some 100
   \<and> tts_text both_flags_step (u ''fr'') = Some (u ''1 min 30 sec/Varoma/Turbo'')
   \<and> (\<exists>a. build_tts_annotation_from_step both_flags_step (u ''fr'') = Some a
          \<and> tts_speed a = Some (u ''Turbo'') \<and> temperature_value a = Some (u ''varoma''))"
proof -
  have f: "is_turbo both_flags_step" "is_varoma both_flags_step"
    "speed both_flags_step = Some 5" "temperature both_flags_step = Some 100"
    by (simp_all add: both_flags_step_def)
  have t: "tts_text both_flags_step (u ''fr'') = Some (u ''1 min 30 sec/Varoma/Turbo'')"
    by (simp add: both_flags_step_def tts_text_def tts_details_def truthy_int_def time_str_def
        py_str_def nat_digits.simps u_def)
  then obtain a where a: "build_tts_annotation_from_step both_flags_step (u ''fr'') = Some a"
    by (simp add: build_tts_annotation_from_step_def u_def)
  from rendering_exclusive [of both_flags_step "u ''fr''"] a f
  have "tts_speed a = Some (u ''Turbo'')" "temperature_value a = Some (u ''varoma'')"
    by blast+
  with f t a show ?thesis by simp
qed

subsection \<open>Tools (C9)\<close>

lemma triggered_tools_filter:
  "triggered_tools tks t =
     map fst (filter (\<lambda>tk. list_ex (\<lambda>kw. py_in kw t) (snd tk)) tks)"
  by (induction tks t rule: triggered_tools.induct) auto

lemma triggered_tools_subseq: "subseq (triggered_tools tks t) (map fst tks)"
  unfolding triggered_tools_filter by (intro subseq_map subseq_filter_left)

lemma triggered_tools_distinct:
  "distinct (map fst tks) \<Longrightarrow> distinct (triggered_tools tks t)"
  unfolding triggered_tools_filter by (rule distinct_map_filter)

lemma triggered_tools_member:
  assumes d: "distinct (map fst tks)" and m: "(nm, kws) \<in> set tks"
  shows "(nm \<in> set (triggered_tools tks t)) = list_ex (\<lambda>kw. py_in kw t) kws"
proof
  assume "nm \<in> set (triggered_tools tks t)"
  then obtain tk where tk: "tk \<in> set tks" "list_ex (\<lambda>kw. py_in kw t) (snd tk)" "fst tk = nm"
    unfolding triggered_tools_filter by auto
  then have "(nm, snd tk) \<in> set tks" by auto
  with d m have "snd tk = kws" by (metis eq_key_imp_eq_value)
  with tk show "list_ex (\<lambda>kw. py_in kw t) kws" by simp
next
  assume "list_ex (\<lambda>kw. py_in kw t) kws"
  with m have "(nm, kws) \<in> set (filter (\<lambda>tk. list_ex (\<lambda>kw. py_in kw t) (snd tk)) tks)"
    by simp
  then have "fst (nm, kws) \<in> fst ` set (filter (\<lambda>tk. list_ex (\<lambda>kw. py_in kw t) (snd tk)) tks)"
    by (rule imageI)
  then show "nm \<in> set (triggered_tools tks t)"
    unfolding triggered_tools_filter by simp
qed

lemma tool_names_distinct: "distinct (u ''TM7'' # map fst TOOL_KEYWORDS)"
  by (simp add: TOOL_KEYWORDS_def u_def)

lemma detect_tools_eq: "detect_tools instrs = u ''TM7'' # triggered_tools TOOL_KEYWORDS (tool_text instrs)"
  by (simp add: detect_tools_def tool_text_def Let_def)

lemma triggered_four:
  "triggered_tools [(n1, k1), (n2, k2), (n3, k3), (n4, k4)] t =
     (if list_ex (\<lambda>kw. py_in kw t) k1 then [n1] else [])
     @ (if list_ex (\<lambda>kw. py_in kw t) k2 then [n2] else [])
     @ (if list_ex (\<lambda>kw. py_in kw t) k3 then [n3] else [])
     @ (if list_ex (\<lambda>kw. py_in kw t) k4 then [n4] else [])"
  by simp

lemma map_of_four:
  assumes "distinct [n1, n2, n3, n4]"
  shows "map_of [(n1, k1), (n2, k2), (n3, k3), (n4, k4)] n1 = Some k1"
    and "map_of [(n1, k1), (n2, k2), (n3, k3), (n4, k4)] n2 = Some k2"
    and "map_of [(n1, k1), (n2, k2), (n3, k3), (n4, k4)] n3 = Some k3"
    and "map_of [(n1, k1), (n2, k2), (n3, k3), (n4, k4)] n4 = Some k4"
  using assms by auto

lemma detect_tools_by_flags:
  "detect_tools instrs =
     u ''TM7'' #
     (if tool_triggered (u ''Four'') (tool_text instrs) then [u ''Four''] else [])
     @ (if tool_triggered (u ''Varoma'') (tool_text instrs) then [u ''Varoma''] else [])
     @ (if tool_triggered (u ''Fouet papillon'') (tool_text instrs) then [u ''Fouet papillon'']
        else [])
     @ (if tool_triggered (u ''Panier de cuisson'') (tool_text instrs)
        then [u ''Panier de cuisson''] else [])"
proof -
  have d: "distinct [u ''Four'', u ''Varoma'', u ''Fouet papillon'', u ''Panier de cuisson'']"
    by (simp add: u_def)
  show ?thesis
    unfolding detect_tools_eq tool_triggered_def TOOL_KEYWORDS_def
    by (simp only: map_of_four [OF d] triggered_four option.case)
qed

lemma tool_triggered_eqs:
  "tool_triggered (u ''Four'') t =
     list_ex (\<lambda>kw. py_in kw t)
       [u ''four'', u ''enfourner'', u ''oven'', u ''bake'', u ''baking'', u ''prechauffer'',
        u ''preheat'']"
  "tool_triggered (u ''Varoma'') t =
     list_ex (\<lambda>kw. py_in kw t) [u ''varoma'', u ''vapeur'', u ''steam'', u ''steaming'']"
  "tool_triggered (u ''Fouet papillon'') t =
     list_ex (\<lambda>kw. py_in kw t)
       [u ''fouet papillon'', u ''butterfly'', u ''butterfly whisk'', u ''monter en neige'',
        u ''chantilly'', u ''creme fouettee'', u ''whipped cream'', u ''stiff peaks'',
        u ''soft peaks'']"
  "tool_triggered (u ''Panier de cuisson'') t =
     list_ex (\<lambda>kw. py_in kw t) [u ''panier de cuisson'', u ''steaming basket'', u ''steam basket'']"
proof -
  have d: "distinct [u ''Four'', u ''Varoma'', u ''Fouet papillon'', u ''Panier de cuisson'']"
    by (simp add: u_def)
  note l = map_of_four [OF d]
  show "tool_triggered (u ''Four'') t =
     list_ex (\<lambda>kw. py_in kw t)
       [u ''four'', u ''enfourner'', u ''oven'', u ''bake'', u ''baking'', u ''prechauffer'',
        u ''preheat'']"
    unfolding tool_triggered_def TOOL_KEYWORDS_def by (simp only: l option.case)
  show "tool_triggered (u ''Varoma'') t =
     list_ex (\<lambda>kw. py_in kw t) [u ''varoma'', u ''vapeur'', u ''steam'', u ''steaming'']"
    unfolding tool_triggered_def TOOL_KEYWORDS_def by (simp only: l option.case)
  show "tool_triggered (u ''Fouet papillon'') t =
     list_ex (\<lambda>kw. py_in kw t)
       [u ''fouet papillon'', u ''butterfly'', u ''butterfly whisk'', u ''monter en neige'',
        u ''chantilly'', u ''creme fouettee'', u ''whipped cream'', u ''stiff peaks'',
        u ''soft peaks'']"
    unfolding tool_triggered_def TOOL_KEYWORDS_def by (simp only: l option.case)
  show "tool_triggered (u ''Panier de cuisson'') t =
     list_ex (\<lambda>kw. py_in kw t) [u ''panier de cuisson'', u ''steaming basket'', u ''steam basket'']"
    unfolding tool_triggered_def TOOL_KEYWORDS_def by (simp only: l option.case)
qed

text \<open>
  C9, as amended: the list of tools starts with "TM7", has no duplicates, follows the
  order of the table, and holds a tool of the table exactly when one of its keywords
  occurs in the instructions; instructions with an oven keyword and a steam keyword,
  and no keyword of the two other tools, give exactly TM7, Four, Varoma.
\<close>

theorem detect_tools_table_order:
  "\<exists>ts. detect_tools instrs = u ''TM7'' # ts
      \<and> distinct (u ''TM7'' # ts)
      \<and> subseq ts (map fst TOOL_KEYWORDS)
      \<and> (\<forall>tk \<in> set TOOL_KEYWORDS.
            (fst tk \<in> set ts) = list_ex (\<lambda>kw. py_in kw (tool_text instrs)) (snd tk))
      \<and> (tool_triggered (u ''Four'') (tool_text instrs)
           \<and> tool_triggered (u ''Varoma'') (tool_text instrs)
           \<and> \<not> tool_triggered (u ''Fouet papillon'') (tool_text instrs)
           \<and> \<not> tool_triggered (u ''Panier de cuisson'') (tool_text instrs)
          \<longrightarrow> detect_tools instrs = [u ''TM7'', u ''Four'', u ''Varoma''])"
proof (intro exI conjI ballI impI)
  let ?ts = "triggered_tools TOOL_KEYWORDS (tool_text instrs)"
  show "detect_tools instrs = u ''TM7'' # ?ts" by (rule detect_tools_eq)
  have names: "distinct (map fst TOOL_KEYWORDS)" "u ''TM7'' \<notin> set (map fst TOOL_KEYWORDS)"
    using tool_names_distinct by simp_all
  have "set ?ts \<subseteq> set (map fst TOOL_KEYWORDS)"
    unfolding triggered_tools_filter by auto
  with names show "distinct (u ''TM7'' # ?ts)"
    using triggered_tools_distinct [of TOOL_KEYWORDS "tool_text instrs"] by auto
  show "subseq ?ts (map fst TOOL_KEYWORDS)" by (rule triggered_tools_subseq)
  show "(fst tk \<in> set ?ts) = list_ex (\<lambda>kw. py_in kw (tool_text instrs)) (snd tk)"
    if "tk \<in> set TOOL_KEYWORDS" for tk
    using triggered_tools_member [OF names(1), of "fst tk" "snd tk"] that by simp
  show "detect_tools instrs = [u ''TM7'', u ''Four'', u ''Varoma'']"
    if "tool_triggered (u ''Four'') (tool_text instrs)
           \<and> tool_triggered (u ''Varoma'') (tool_text instrs)
           \<and> \<not> tool_triggered (u ''Fouet papillon'') (tool_text instrs)
           \<and> \<not> tool_triggered (u ''Panier de cuisson'') (tool_text instrs)"
    using that by (simp add: detect_tools_by_flags)
qed

lemma oven_and_steam_text:
  "tool_text oven_and_steam = u ''prechauffer le four. cuire a la vapeur.''"
  by (simp add: tool_text_def oven_and_steam_def strip_accents_def py_lower_def
      nfkd_no_marks_def lower_cp_def u_def)

lemma oven_and_steam_flags:
  "tool_triggered (u ''Four'') (tool_text oven_and_steam)"
  "tool_triggered (u ''Varoma'') (tool_text oven_and_steam)"
  "\<not> tool_triggered (u ''Fouet papillon'') (tool_text oven_and_steam)"
  "\<not> tool_triggered (u ''Panier de cuisson'') (tool_text oven_and_steam)"
  unfolding oven_and_steam_text tool_triggered_eqs by (simp_all add: u_def)

theorem detect_tools_table_order_witness:
  "tool_triggered (u ''Four'') (tool_text oven_and_steam)
   \<and> tool_triggered (u ''Varoma'') (tool_text oven_and_steam)
   \<and> \<not> tool_triggered (u ''Fouet papillon'') (tool_text oven_and_steam)
   \<and> \<not> tool_triggered (u ''Panier de cuisson'') (tool_text oven_and_steam)
   \<and> detect_tools oven_and_steam = [u ''TM7'', u ''Four'', u ''Varoma'']"
  using detect_tools_table_order [of oven_and_steam] oven_and_steam_flags by blast

text \<open>
  C9 as stated fails: an oven keyword and a steam keyword do not always give exactly
  three tools.  In "Bake in the steam basket" the keyword "steam basket" of the
  basket stands with "bake" and "steam".
\<close>

lemma oven_and_basket_text: "tool_text oven_and_basket = u ''bake in the steam basket''"
  by (simp add: tool_text_def oven_and_basket_def strip_accents_def py_lower_def
      nfkd_no_marks_def lower_cp_def u_def)

lemma oven_and_basket_flags:
  "tool_triggered (u ''Four'') (tool_text oven_and_basket)"
  "tool_triggered (u ''Varoma'') (tool_text oven_and_basket)"
  "\<not> tool_triggered (u ''Fouet papillon'') (tool_text oven_and_basket)"
  "tool_triggered (u ''Panier de cuisson'') (tool_text oven_and_basket)"
  unfolding oven_and_basket_text tool_triggered_eqs by (simp_all add: u_def)

theorem oven_and_steam_counterexample:
  "tool_triggered (u ''Four'') (tool_text oven_and_basket)
   \<and> tool_triggered (u ''Varoma'') (tool_text oven_and_basket)
   \<and> detect_tools oven_and_basket
       = [u ''TM7'', u ''Four'', u ''Varoma'', u ''Panier de cuisson'']
   \<and> detect_tools oven_and_basket \<noteq> [u ''TM7'', u ''Four'', u ''Varoma'']"
  by (simp add: detect_tools_by_flags oven_and_basket_flags)

subsection \<open>What a returned step holds\<close>

lemma convert_step_in_result:
  assumes "convert_step_in ks t loc = Inr st"
  shows "\<exists>tp d sp.
       (if \<not> v_is_varoma (keyword_tiers ks t) then parse_temperature_from_text t else Inr None)
         = Inr tp
     \<and> parse_duration_from_text t = Inr d
     \<and> parse_speed_from_text t = Inr sp
     \<and> description st = clean_description t
     \<and> temperature st = (if truthy_int tp then tp else v_temperature (keyword_tiers ks t))
     \<and> duration_seconds st = (if truthy_int d then d else v_duration (keyword_tiers ks t))
     \<and> speed st = (if sp \<noteq> None then sp else v_speed (keyword_tiers ks t))
     \<and> reverse st = v_reverse (keyword_tiers ks t)
     \<and> is_turbo st = v_is_turbo (keyword_tiers ks t)
     \<and> is_varoma st = v_is_varoma (keyword_tiers ks t)"
proof -
  define v where "v = keyword_tiers ks t"
  define x where "x = (if \<not> v_is_varoma v then parse_temperature_from_text t else Inr None)"
  from assms obtain tp where tp: "x = Inr tp"
    unfolding convert_step_in_def Let_def x_def v_def by (cases x) (auto simp: x_def v_def)
  from assms tp obtain d where d: "parse_duration_from_text t = Inr d"
    unfolding convert_step_in_def Let_def x_def v_def
    by (cases "parse_duration_from_text t") auto
  from assms tp d obtain sp where sp: "parse_speed_from_text t = Inr sp"
    unfolding convert_step_in_def Let_def x_def v_def
    by (cases "parse_speed_from_text t") auto
  define step where "step =
     \<lparr>description = clean_description t,
      duration_seconds = (if truthy_int d then d else v_duration v),
      temperature = (if truthy_int tp then tp else v_temperature v),
      speed = (if sp \<noteq> None then sp else v_speed v),
      reverse = v_reverse v, is_turbo = v_is_turbo v, is_varoma = v_is_varoma v,
      tts_annotations = [], ingredient_annotations = []\<rparr>"
  have "convert_step_in ks t loc =
          (case build_tts_annotation_from_step step loc of
             Some tts \<Rightarrow> Inr (step\<lparr>tts_annotations := [tts]\<rparr>)
           | None \<Rightarrow> Inr step)"
    using tp unfolding convert_step_in_def Let_def step_def x_def v_def
    by (simp add: d sp)
  with assms have "st = step \<or> (\<exists>tts. st = step\<lparr>tts_annotations := [tts]\<rparr>)"
    by (cases "build_tts_annotation_from_step step loc") auto
  then have fields: "description st = clean_description t"
    "temperature st = (if truthy_int tp then tp else v_temperature v)"
    "duration_seconds st = (if truthy_int d then d else v_duration v)"
    "speed st = (if sp \<noteq> None then sp else v_speed v)"
    "reverse st = v_reverse v" "is_turbo st = v_is_turbo v" "is_varoma st = v_is_varoma v"
    by (auto simp: step_def)
  from tp d sp fields show ?thesis
    unfolding x_def v_def by blast
qed

lemma convert_step_in_returns:
  assumes "(if \<not> v_is_varoma (keyword_tiers ks t) then parse_temperature_from_text t
            else Inr None) = Inr tp"
    and "parse_duration_from_text t = Inr d"
    and "parse_speed_from_text t = Inr sp"
  shows "\<exists>st. convert_step_in ks t loc = Inr st"
proof -
  define step where "step =
     \<lparr>description = clean_description t,
      duration_seconds = (if truthy_int d then d else v_duration (keyword_tiers ks t)),
      temperature = (if truthy_int tp then tp else v_temperature (keyword_tiers ks t)),
      speed = (if sp \<noteq> None then sp else v_speed (keyword_tiers ks t)),
      reverse = v_reverse (keyword_tiers ks t), is_turbo = v_is_turbo (keyword_tiers ks t),
      is_varoma = v_is_varoma (keyword_tiers ks t),
      tts_annotations = [], ingredient_annotations = []\<rparr>"
  have "convert_step_in ks t loc =
          (case build_tts_annotation_from_step step loc of
             Some tts \<Rightarrow> Inr (step\<lparr>tts_annotations := [tts]\<rparr>)
           | None \<Rightarrow> Inr step)"
    using assms(1) unfolding convert_step_in_def Let_def step_def
    by (simp add: assms(2,3))
  then show ?thesis
    by (cases "build_tts_annotation_from_step step loc") auto
qed

subsection \<open>Turbo steps (C5)\<close>

lemma turbo_tiers:
  assumes "list_ex (\<lambda>kw. py_in kw (strip_accents (py_lower t))) ks"
  shows "keyword_tiers ks t =
     \<lparr>v_speed = None, v_temperature = None, v_duration = Some 15, v_reverse = False,
      v_is_turbo = True, v_is_varoma = is_varoma_temperature t\<rparr>"
  using assms by (simp add: keyword_tiers_def Let_def turbo_scan_set)

lemma turbo_result:
  assumes "list_ex (\<lambda>kw. py_in kw (strip_accents (py_lower t))) TURBO_KEYWORDS"
    and "convert_step t loc = Inr st"
  shows "is_turbo st" "\<not> reverse st" "is_varoma st = is_varoma_temperature t"
    "\<exists>d. parse_duration_from_text t = Inr d
        \<and> duration_seconds st = (if truthy_int d then d else Some 15)"
    "\<exists>sp. parse_speed_from_text t = Inr sp \<and> speed st = sp"
    "is_varoma_temperature t \<longrightarrow> temperature st = None"
    "\<not> is_varoma_temperature t \<longrightarrow>
       (\<exists>tp. parse_temperature_from_text t = Inr tp
          \<and> temperature st = (if truthy_int tp then tp else None))"
  using convert_step_in_result [OF assms(2) [unfolded convert_step_def]]
  by (auto simp: turbo_tiers [OF assms(1)] truthy_int_def)

lemma turbo_returns:
  assumes "list_ex (\<lambda>kw. py_in kw (strip_accents (py_lower t))) TURBO_KEYWORDS"
    and "is_varoma_temperature t \<or> parse_temperature_from_text t = Inr tp"
    and "parse_duration_from_text t = Inr d"
    and "parse_speed_from_text t = Inr sp"
  shows "\<exists>st. convert_step t loc = Inr st"
proof -
  from assms(2)
  have "\<exists>x. (if \<not> v_is_varoma (keyword_tiers TURBO_KEYWORDS t)
              then parse_temperature_from_text t else Inr None) = Inr x"
    by (auto simp: turbo_tiers [OF assms(1)])
  then obtain x where "(if \<not> v_is_varoma (keyword_tiers TURBO_KEYWORDS t)
              then parse_temperature_from_text t else Inr None) = Inr x" ..
  from convert_step_in_returns [OF this assms(3,4)] show ?thesis
    by (simp add: convert_step_def)
qed

text \<open>
  C5, as amended: when a turbo keyword occurs in the normalized text of a step, the
  step that \<open>convert_step\<close> returns is a turbo step and the two keyword tables are not
  read: no speed, temperature or reverse flag comes from them, and the step is a steam
  step only when the word "varoma" occurs in the text.  Its duration is the one the
  text states and, when the text states none (or zero), 15 seconds.  Its speed is the
  one the text states, if any.  Its temperature is the one the text states, if any,
  except in a steam step, where the temperature of the text is not read and the step
  has no temperature.
\<close>

theorem turbo_short_circuit:
  "list_ex (\<lambda>kw. py_in kw (strip_accents (py_lower t))) TURBO_KEYWORDS
   \<and> convert_step t loc = Inr st \<longrightarrow>
     is_turbo st \<and> \<not> reverse st \<and> is_varoma st = is_varoma_temperature t
     \<and> (\<exists>d. parse_duration_from_text t = Inr d
            \<and> duration_seconds st = (if truthy_int d then d else Some 15))
     \<and> (\<exists>sp. parse_speed_from_text t = Inr sp \<and> speed st = sp)
     \<and> (is_varoma_temperature t \<longrightarrow> temperature st = None)
     \<and> (\<not> is_varoma_temperature t \<longrightarrow>
          (\<exists>tp. parse_temperature_from_text t = Inr tp
             \<and> temperature st = (if truthy_int tp then tp else None)))"
proof (intro impI, elim conjE)
  assume k: "list_ex (\<lambda>kw. py_in kw (strip_accents (py_lower t))) TURBO_KEYWORDS"
    and r: "convert_step t loc = Inr st"
  show "is_turbo st \<and> \<not> reverse st \<and> is_varoma st = is_varoma_temperature t
     \<and> (\<exists>d. parse_duration_from_text t = Inr d
            \<and> duration_seconds st = (if truthy_int d then d else Some 15))
     \<and> (\<exists>sp. parse_speed_from_text t = Inr sp \<and> speed st = sp)
     \<and> (is_varoma_temperature t \<longrightarrow> temperature st = None)
     \<and> (\<not> is_varoma_temperature t \<longrightarrow>
          (\<exists>tp. parse_temperature_from_text t = Inr tp
             \<and> temperature st = (if truthy_int tp then tp else None)))"
    by (intro conjI turbo_result [OF k r])
qed

lemma turbo_plain_normalized: "strip_accents (py_lower turbo_plain) = u ''mixer finement''"
  by (simp add: turbo_plain_def strip_accents_def py_lower_def nfkd_no_marks_def char_ev)

lemma turbo_plain_keyword:
  "list_ex (\<lambda>kw. py_in kw (strip_accents (py_lower turbo_plain))) TURBO_KEYWORDS"
  unfolding turbo_plain_normalized by (simp add: TURBO_KEYWORDS_def char_ev)

lemma turbo_plain_mixing:
  "first_keyword MIXING_KEYWORDS (strip_accents (py_lower turbo_plain)) = Some (mixing 8 30)"
  unfolding turbo_plain_normalized by (simp add: MIXING_KEYWORDS_def char_ev)

lemma turbo_plain_speed: "parse_speed_from_text turbo_plain = Inr None"
  by (simp add: turbo_plain_def parse_speed_from_text_def SPEED_RE_def char_ev rx_ev)

lemma turbo_plain_duration: "parse_duration_from_text turbo_plain = Inr None"
  by (simp add: turbo_plain_def parse_duration_from_text_def MINUTES_RE_def SECONDS_RE_def
      HOURS_RE_def py_lower_def char_ev rx_ev)

lemma turbo_plain_temperature: "parse_temperature_from_text turbo_plain = Inr None"
  by (simp add: turbo_plain_def parse_temperature_from_text_def TEMPERATURE_RE_def char_ev rx_ev)

lemma turbo_plain_varoma: "is_varoma_temperature turbo_plain = False"
  by (simp add: turbo_plain_def is_varoma_temperature_def VAROMA_RE_def py_lower_def char_ev rx_ev)

lemma turbo_steam_normalized:
  "strip_accents (py_lower turbo_steam) = u ''mixer finement au varoma a 100'' @ [176] @ u ''c''"
  by (simp add: turbo_steam_def strip_accents_def py_lower_def nfkd_no_marks_def char_ev)

lemma turbo_steam_keyword:
  "list_ex (\<lambda>kw. py_in kw (strip_accents (py_lower turbo_steam))) TURBO_KEYWORDS"
  unfolding turbo_steam_normalized by (simp add: TURBO_KEYWORDS_def char_ev)

lemma turbo_steam_speed: "parse_speed_from_text turbo_steam = Inr None"
  by (simp add: turbo_steam_def parse_speed_from_text_def SPEED_RE_def char_ev rx_ev)

lemma turbo_steam_duration: "parse_duration_from_text turbo_steam = Inr None"
  by (simp add: turbo_steam_def parse_duration_from_text_def MINUTES_RE_def SECONDS_RE_def
      HOURS_RE_def py_lower_def char_ev rx_ev)

lemma turbo_steam_temperature: "parse_temperature_from_text turbo_steam = Inr (Some 100)"
  by (simp add: turbo_steam_def parse_temperature_from_text_def TEMPERATURE_RE_def int_ev
      char_ev rx_ev)

lemma turbo_steam_varoma: "is_varoma_temperature turbo_steam = True"
  by (simp add: turbo_steam_def is_varoma_temperature_def VAROMA_RE_def py_lower_def char_ev rx_ev)

theorem turbo_short_circuit_witness:
  "list_ex (\<lambda>kw. py_in kw (strip_accents (py_lower turbo_plain))) TURBO_KEYWORDS
   \<and> first_keyword MIXING_KEYWORDS (strip_accents (py_lower turbo_plain)) = Some (mixing 8 30)
   \<and> (\<exists>st. convert_step turbo_plain (u ''fr'') = Inr st \<and> is_turbo st
          \<and> duration_seconds st = Some 15 \<and> speed st = None \<and> temperature st = None
          \<and> \<not> reverse st \<and> \<not> is_varoma st)
   \<and> list_ex (\<lambda>kw. py_in kw (strip_accents (py_lower turbo_steam))) TURBO_KEYWORDS
   \<and> parse_temperature_from_text turbo_steam = Inr (Some 100)
   \<and> (\<exists>st. convert_step turbo_steam (u ''fr'') = Inr st \<and> is_turbo st \<and> is_varoma st
          \<and> duration_seconds st = Some 15 \<and> speed st = None \<and> temperature st = None)"
proof -
  obtain p where p: "convert_step turbo_plain (u ''fr'') = Inr p"
    using turbo_returns [OF turbo_plain_keyword disjI2 [OF turbo_plain_temperature]
        turbo_plain_duration turbo_plain_speed] ..
  obtain s where s: "convert_step turbo_steam (u ''fr'') = Inr s"
    using turbo_returns [OF turbo_steam_keyword disjI2 [OF turbo_steam_temperature]
        turbo_steam_duration turbo_steam_speed] ..
  from turbo_short_circuit [of turbo_plain "u ''fr''" p] turbo_plain_keyword p
  have "is_turbo p \<and> duration_seconds p = Some 15 \<and> speed p = None \<and> temperature p = None
          \<and> \<not> reverse p \<and> \<not> is_varoma p"
    by (simp add: turbo_plain_speed turbo_plain_duration turbo_plain_temperature
        turbo_plain_varoma truthy_int_def)
  moreover from turbo_short_circuit [of turbo_steam "u ''fr''" s] turbo_steam_keyword s
  have "is_turbo s \<and> is_varoma s \<and> duration_seconds s = Some 15 \<and> speed s = None
          \<and> temperature s = None"
    by (simp add: turbo_steam_speed turbo_steam_duration turbo_steam_varoma truthy_int_def)
  ultimately show ?thesis
    using p s turbo_plain_keyword turbo_plain_mixing turbo_steam_keyword turbo_steam_temperature
    by blast
qed

text \<open>
  C5 as stated fails: the duration of a turbo step is not always 15 seconds.  In
  "Mixer finement 20 secondes" the duration the text states replaces it.
\<close>

lemma turbo_timed_normalized:
  "strip_accents (py_lower turbo_timed) = u ''mixer finement 20 secondes''"
  by (simp add: turbo_timed_def strip_accents_def py_lower_def nfkd_no_marks_def char_ev)

lemma turbo_timed_keyword:
  "list_ex (\<lambda>kw. py_in kw (strip_accents (py_lower turbo_timed))) TURBO_KEYWORDS"
  unfolding turbo_timed_normalized by (simp add: TURBO_KEYWORDS_def char_ev)

lemma turbo_timed_speed: "parse_speed_from_text turbo_timed = Inr None"
  by (simp add: turbo_timed_def parse_speed_from_text_def SPEED_RE_def char_ev rx_ev)

lemma turbo_timed_duration: "parse_duration_from_text turbo_timed = Inr (Some 20)"
  by (simp add: turbo_timed_def parse_duration_from_text_def MINUTES_RE_def SECONDS_RE_def
      HOURS_RE_def py_lower_def int_ev char_ev rx_ev)

lemma turbo_timed_temperature: "parse_temperature_from_text turbo_timed = Inr None"
  by (simp add: turbo_timed_def parse_temperature_from_text_def TEMPERATURE_RE_def char_ev rx_ev)

theorem turbo_duration_counterexample:
  "list_ex (\<lambda>kw. py_in kw (strip_accents (py_lower turbo_timed))) TURBO_KEYWORDS
   \<and> (\<exists>st. convert_step turbo_timed (u ''fr'') = Inr st \<and> is_turbo st
          \<and> duration_seconds st = Some 20 \<and> duration_seconds st \<noteq> Some 15)"
proof -
  obtain st where st: "convert_step turbo_timed (u ''fr'') = Inr st"
    using turbo_returns [OF turbo_timed_keyword disjI2 [OF turbo_timed_temperature]
        turbo_timed_duration turbo_timed_speed] ..
  from turbo_result(1,4) [OF turbo_timed_keyword st]
  have "is_turbo st \<and> duration_seconds st = Some 20 \<and> duration_seconds st \<noteq> Some 15"
    by (simp add: turbo_timed_duration truthy_int_def)
  with st turbo_timed_keyword show ?thesis by blast
qed

subsection \<open>Explicit temperature and duration (C4)\<close>

lemma explicit_temperature:
  assumes "re_search False TEMPERATURE_RE t = Some m" "py_int (the (m 1)) = Inr 180"
  shows "parse_temperature_from_text t = Inr (Some 120)"
  using assms by (simp add: parse_temperature_from_text_def)

lemma explicit_minutes:
  assumes "re_search False MINUTES_RE (py_lower t) = Some m" "py_int (the (m 1)) = Inr 10"
  shows "parse_duration_from_text t = Inr (Some 600)"
  using assms by (simp add: parse_duration_from_text_def Let_def)

lemma explicit_result:
  assumes "re_search False TEMPERATURE_RE t = Some m" "py_int (the (m 1)) = Inr 180"
    and "re_search False MINUTES_RE (py_lower t) = Some m'" "py_int (the (m' 1)) = Inr 10"
    and "convert_step t loc = Inr st"
  shows "duration_seconds st = Some 600"
    "\<not> is_varoma st \<longrightarrow> temperature st = Some 120"
    "is_varoma st \<longrightarrow> temperature st = v_temperature (keyword_tiers TURBO_KEYWORDS t)"
    "\<exists>sp. parse_speed_from_text t = Inr sp
        \<and> speed st = (if sp \<noteq> None then sp else v_speed (keyword_tiers TURBO_KEYWORDS t))"
    "reverse st = v_reverse (keyword_tiers TURBO_KEYWORDS t)"
    "is_turbo st = v_is_turbo (keyword_tiers TURBO_KEYWORDS t)"
    "is_varoma st = v_is_varoma (keyword_tiers TURBO_KEYWORDS t)"
  using convert_step_in_result [OF assms(5) [unfolded convert_step_def]]
    explicit_temperature [OF assms(1,2)] explicit_minutes [OF assms(3,4)]
  by (auto simp: truthy_int_def)

lemma low_temperature_discarded:
  assumes "re_search False TEMPERATURE_RE t = Some m" "py_int (the (m 1)) = Inr n" "n < 37"
  shows "parse_temperature_from_text t = Inr None"
  using assms by (simp add: parse_temperature_from_text_def Let_def)

text \<open>
  C4, as amended: when the first temperature the text states is 180 degrees and the
  first duration in minutes it states is 10, the step that \<open>convert_step\<close> returns has
  a duration of 600 seconds and, unless it is a steam step, a temperature of 120.  In a
  steam step the temperature of the text is not read: the temperature is the one of
  the keyword tiers.  The speed, the reverse flag and the two mode flags are those of
  the keyword tiers (the speed unless the text states one).  A text whose first stated
  temperature is below 37 gives no temperature.
\<close>

theorem explicit_temperature_and_duration:
  "(re_search False TEMPERATURE_RE t = Some m \<and> py_int (the (m 1)) = Inr 180
    \<and> re_search False MINUTES_RE (py_lower t) = Some m' \<and> py_int (the (m' 1)) = Inr 10
    \<and> convert_step t loc = Inr st
    \<longrightarrow> duration_seconds st = Some 600
      \<and> (\<not> is_varoma st \<longrightarrow> temperature st = Some 120)
      \<and> (is_varoma st \<longrightarrow> temperature st = v_temperature (keyword_tiers TURBO_KEYWORDS t))
      \<and> (\<exists>sp. parse_speed_from_text t = Inr sp
             \<and> speed st = (if sp \<noteq> None then sp
                            else v_speed (keyword_tiers TURBO_KEYWORDS t)))
      \<and> reverse st = v_reverse (keyword_tiers TURBO_KEYWORDS t)
      \<and> is_turbo st = v_is_turbo (keyword_tiers TURBO_KEYWORDS t)
      \<and> is_varoma st = v_is_varoma (keyword_tiers TURBO_KEYWORDS t))
   \<and> (re_search False TEMPERATURE_RE t' = Some m'' \<and> py_int (the (m'' 1)) = Inr n \<and> n < 37
      \<longrightarrow> parse_temperature_from_text t' = Inr None)"
proof (intro conjI impI)
  assume "re_search False TEMPERATURE_RE t' = Some m'' \<and> py_int (the (m'' 1)) = Inr n \<and> n < 37"
  then show "parse_temperature_from_text t' = Inr None"
    using low_temperature_discarded by blast
next
  assume a: "re_search False TEMPERATURE_RE t = Some m \<and> py_int (the (m 1)) = Inr 180
    \<and> re_search False MINUTES_RE (py_lower t) = Some m' \<and> py_int (the (m' 1)) = Inr 10
    \<and> convert_step t loc = Inr st"
  then have h: "re_search False TEMPERATURE_RE t = Some m" "py_int (the (m 1)) = Inr 180"
    "re_search False MINUTES_RE (py_lower t) = Some m'" "py_int (the (m' 1)) = Inr 10"
    "convert_step t loc = Inr st"
    by simp_all
  note r = explicit_result [OF h]
  show "duration_seconds st = Some 600" by (rule r(1))
  show "temperature st = Some 120" if "\<not> is_varoma st" using r(2) that by simp
  show "temperature st = v_temperature (keyword_tiers TURBO_KEYWORDS t)" if "is_varoma st"
    using r(3) that by simp
  show "\<exists>sp. parse_speed_from_text t = Inr sp
        \<and> speed st = (if sp \<noteq> None then sp else v_speed (keyword_tiers TURBO_KEYWORDS t))"
    by (rule r(4))
  show "reverse st = v_reverse (keyword_tiers TURBO_KEYWORDS t)" by (rule r(5))
  show "is_turbo st = v_is_turbo (keyword_tiers TURBO_KEYWORDS t)" by (rule r(6))
  show "is_varoma st = v_is_varoma (keyword_tiers TURBO_KEYWORDS t)" by (rule r(7))
qed

lemma hot_step_temperature_match:
  "\<exists>m. re_search False TEMPERATURE_RE hot_step = Some m \<and> py_int (the (m 1)) = Inr 180"
  by (simp add: hot_step_def TEMPERATURE_RE_def int_ev char_ev rx_ev)

lemma hot_step_minutes_match:
  "\<exists>m. re_search False MINUTES_RE (py_lower hot_step) = Some m \<and> py_int (the (m 1)) = Inr 10"
  by (simp add: hot_step_def MINUTES_RE_def py_lower_def int_ev char_ev rx_ev)

lemma hot_step_speed: "parse_speed_from_text hot_step = Inr None"
  by (simp add: hot_step_def parse_speed_from_text_def SPEED_RE_def char_ev rx_ev)

lemma hot_step_normalized: "strip_accents (py_lower hot_step) = u ''cuire a 180'' @ [176] @ u ''c pendant 10 minutes''"
  by (simp add: hot_step_def strip_accents_def py_lower_def nfkd_no_marks_def char_ev)

lemma hot_step_turbo: "turbo_scan TURBO_KEYWORDS (strip_accents (py_lower hot_step)) = (False, None)"
  unfolding hot_step_normalized by (simp add: TURBO_KEYWORDS_def char_ev)

lemma hot_step_cooking:
  "first_keyword COOKING_KEYWORDS (strip_accents (py_lower hot_step)) = Some (cooking 1 100)"
  unfolding hot_step_normalized by (simp add: COOKING_KEYWORDS_def char_ev)

lemma hot_step_varoma: "is_varoma_temperature hot_step = False"
  by (simp add: hot_step_def is_varoma_temperature_def VAROMA_RE_def py_lower_def char_ev rx_ev)

lemma hot_step_tiers:
  "keyword_tiers TURBO_KEYWORDS hot_step =
     \<lparr>v_speed = Some 1, v_temperature = Some 100, v_duration = None, v_reverse = False,
      v_is_turbo = False, v_is_varoma = False\<rparr>"
  by (simp add: keyword_tiers_def Let_def hot_step_turbo cooking_tier_def mixing_tier_def
      hot_step_cooking hot_step_varoma cooking_def)

lemma hot_step_returns: "\<exists>st. convert_step hot_step (u ''fr'') = Inr st"
proof -
  obtain m where m: "re_search False TEMPERATURE_RE hot_step = Some m"
    "py_int (the (m 1)) = Inr 180"
    using hot_step_temperature_match by blast
  obtain m' where m': "re_search False MINUTES_RE (py_lower hot_step) = Some m'"
    "py_int (the (m' 1)) = Inr 10"
    using hot_step_minutes_match by blast
  have "\<exists>x. (if \<not> v_is_varoma (keyword_tiers TURBO_KEYWORDS hot_step)
              then parse_temperature_from_text hot_step else Inr None) = Inr x"
    by (simp add: explicit_temperature [OF m])
  then obtain x where "(if \<not> v_is_varoma (keyword_tiers TURBO_KEYWORDS hot_step)
              then parse_temperature_from_text hot_step else Inr None) = Inr x" ..
  from convert_step_in_returns [OF this explicit_minutes [OF m'] hot_step_speed]
  show ?thesis by (simp add: convert_step_def)
qed

lemma steam_hot_step_temperature_match:
  "\<exists>m. re_search False TEMPERATURE_RE steam_hot_step = Some m \<and> py_int (the (m 1)) = Inr 180"
  by (simp add: steam_hot_step_def TEMPERATURE_RE_def int_ev char_ev rx_ev)

lemma steam_hot_step_minutes_match:
  "\<exists>m. re_search False MINUTES_RE (py_lower steam_hot_step) = Some m \<and> py_int (the (m 1)) = Inr 10"
  by (simp add: steam_hot_step_def MINUTES_RE_def py_lower_def int_ev char_ev rx_ev)

lemma steam_hot_step_speed: "parse_speed_from_text steam_hot_step = Inr None"
  by (simp add: steam_hot_step_def parse_speed_from_text_def SPEED_RE_def char_ev rx_ev)

lemma steam_hot_step_normalized: "strip_accents (py_lower steam_hot_step) = u ''cuire au varoma a 180'' @ [176] @ u ''c pendant 10 minutes''"
  by (simp add: steam_hot_step_def strip_accents_def py_lower_def nfkd_no_marks_def char_ev)

lemma steam_hot_step_turbo: "turbo_scan TURBO_KEYWORDS (strip_accents (py_lower steam_hot_step)) = (False, None)"
  unfolding steam_hot_step_normalized by (simp add: TURBO_KEYWORDS_def char_ev)

lemma steam_hot_step_cooking:
  "first_keyword COOKING_KEYWORDS (strip_accents (py_lower steam_hot_step)) = Some (cooking 1 100)"
  unfolding steam_hot_step_normalized by (simp add: COOKING_KEYWORDS_def char_ev)

lemma steam_hot_step_varoma: "is_varoma_temperature steam_hot_step = True"
  by (simp add: steam_hot_step_def is_varoma_temperature_def VAROMA_RE_def py_lower_def char_ev rx_ev)

lemma steam_hot_step_tiers:
  "keyword_tiers TURBO_KEYWORDS steam_hot_step =
     \<lparr>v_speed = Some 1, v_temperature = Some 100, v_duration = None, v_reverse = False,
      v_is_turbo = False, v_is_varoma = True\<rparr>"
  by (simp add: keyword_tiers_def Let_def steam_hot_step_turbo cooking_tier_def mixing_tier_def
      steam_hot_step_cooking steam_hot_step_varoma cooking_def)

lemma steam_hot_step_returns: "\<exists>st. convert_step steam_hot_step (u ''fr'') = Inr st"
proof -
  obtain m where m: "re_search False TEMPERATURE_RE steam_hot_step = Some m"
    "py_int (the (m 1)) = Inr 180"
    using steam_hot_step_temperature_match by blast
  obtain m' where m': "re_search False MINUTES_RE (py_lower steam_hot_step) = Some m'"
    "py_int (the (m' 1)) = Inr 10"
    using steam_hot_step_minutes_match by blast
  have "\<exists>x. (if \<not> v_is_varoma (keyword_tiers TURBO_KEYWORDS steam_hot_step)
              then parse_temperature_from_text steam_hot_step else Inr None) = Inr x"
    by (simp add: explicit_temperature [OF m])
  then obtain x where "(if \<not> v_is_varoma (keyword_tiers TURBO_KEYWORDS steam_hot_step)
              then parse_temperature_from_text steam_hot_step else Inr None) = Inr x" ..
  from convert_step_in_returns [OF this explicit_minutes [OF m'] steam_hot_step_speed]
  show ?thesis by (simp add: convert_step_def)
qed

lemma cold_text_match:
  "\<exists>m. re_search False TEMPERATURE_RE cold_text = Some m \<and> py_int (the (m 1)) = Inr 20"
  by (simp add: cold_text_def TEMPERATURE_RE_def int_ev char_ev rx_ev)

theorem explicit_temperature_and_duration_witness:
  "(\<exists>m m'. re_search False TEMPERATURE_RE hot_step = Some m \<and> py_int (the (m 1)) = Inr 180
       \<and> re_search False MINUTES_RE (py_lower hot_step) = Some m'
       \<and> py_int (the (m' 1)) = Inr 10)
   \<and> first_keyword COOKING_KEYWORDS (strip_accents (py_lower hot_step)) = Some (cooking 1 100)
   \<and> (\<exists>st. convert_step hot_step (u ''fr'') = Inr st \<and> temperature st = Some 120
          \<and> duration_seconds st = Some 600 \<and> speed st = Some 1 \<and> \<not> reverse st
          \<and> \<not> is_turbo st \<and> \<not> is_varoma st)
   \<and> (\<exists>st. convert_step steam_hot_step (u ''fr'') = Inr st \<and> is_varoma st
          \<and> temperature st = Some 100 \<and> duration_seconds st = Some 600)
   \<and> (\<exists>m. re_search False TEMPERATURE_RE cold_text = Some m \<and> py_int (the (m 1)) = Inr 20)
   \<and> parse_temperature_from_text cold_text = Inr None"
proof -
  obtain m where m: "re_search False TEMPERATURE_RE hot_step = Some m"
    "py_int (the (m 1)) = Inr 180"
    using hot_step_temperature_match by blast
  obtain m' where m': "re_search False MINUTES_RE (py_lower hot_step) = Some m'"
    "py_int (the (m' 1)) = Inr 10"
    using hot_step_minutes_match by blast
  obtain h where h: "convert_step hot_step (u ''fr'') = Inr h"
    using hot_step_returns ..
  obtain k where k: "re_search False TEMPERATURE_RE steam_hot_step = Some k"
    "py_int (the (k 1)) = Inr 180"
    using steam_hot_step_temperature_match by blast
  obtain k' where k': "re_search False MINUTES_RE (py_lower steam_hot_step) = Some k'"
    "py_int (the (k' 1)) = Inr 10"
    using steam_hot_step_minutes_match by blast
  obtain s where s: "convert_step steam_hot_step (u ''fr'') = Inr s"
    using steam_hot_step_returns ..
  obtain c where c: "re_search False TEMPERATURE_RE cold_text = Some c"
    "py_int (the (c 1)) = Inr 20"
    using cold_text_match by blast
  note inst = explicit_temperature_and_duration
    [of hot_step m m' "u ''fr''" h cold_text c 20]
  note steam = explicit_temperature_and_duration
    [of steam_hot_step k k' "u ''fr''" s cold_text c 20]
  from inst m m' h have "temperature h = Some 120
          \<and> duration_seconds h = Some 600 \<and> speed h = Some 1 \<and> \<not> reverse h
          \<and> \<not> is_turbo h \<and> \<not> is_varoma h"
    by (auto simp: hot_step_speed hot_step_tiers)
  moreover from steam k k' s have "is_varoma s
          \<and> temperature s = Some 100 \<and> duration_seconds s = Some 600"
    by (auto simp: steam_hot_step_tiers)
  moreover from inst c have "parse_temperature_from_text cold_text = Inr None" by simp
  ultimately show ?thesis using m m' h s c hot_step_cooking by blast
qed

text \<open>
  C4 as stated fails: a text that states 180 degrees and 10 minutes does not always
  give the temperature 120.  In steam mode the temperature of the text is not read:
  "Cuire au varoma a 180 degrees C pendant 10 minutes" keeps the 100 of "cuire".
\<close>

theorem steam_temperature_counterexample:
  "(\<exists>m m'. re_search False TEMPERATURE_RE steam_hot_step = Some m
       \<and> py_int (the (m 1)) = Inr 180
       \<and> re_search False MINUTES_RE (py_lower steam_hot_step) = Some m'
       \<and> py_int (the (m' 1)) = Inr 10)
   \<and> (\<exists>st. convert_step steam_hot_step (u ''fr'') = Inr st \<and> is_varoma st
          \<and> temperature st = Some 100 \<and> temperature st \<noteq> Some 120
          \<and> duration_seconds st = Some 600)"
proof -
  obtain m where m: "re_search False TEMPERATURE_RE steam_hot_step = Some m"
    "py_int (the (m 1)) = Inr 180"
    using steam_hot_step_temperature_match by blast
  obtain m' where m': "re_search False MINUTES_RE (py_lower steam_hot_step) = Some m'"
    "py_int (the (m' 1)) = Inr 10"
    using steam_hot_step_minutes_match by blast
  obtain st where st: "convert_step steam_hot_step (u ''fr'') = Inr st"
    using steam_hot_step_returns ..
  from explicit_result(1,3,7) [OF m m' st]
  have "is_varoma st \<and> temperature st = Some 100 \<and> temperature st \<noteq> Some 120
          \<and> duration_seconds st = Some 600"
    by (simp add: steam_hot_step_tiers)
  with m m' st show ?thesis by blast
qed

subsection \<open>Cleaning twice (C6)\<close>

lemma sub_from_no_match:
  "search_from ic r p s = None \<Longrightarrow> sub_from ic r repl p s = s"
proof (induction s arbitrary: p)
  case Nil
  then have "rx_at ic r p [] = None" by simp
  then show ?case by (subst sub_from.simps) simp
next
  case (Cons x xs)
  from Cons.prems have none: "rx_at ic r p (x # xs) = None"
    and rest: "search_from ic r (Some x) xs = None"
    by (simp_all split: option.splits)
  from Cons.IH [OF rest] none show ?case by (subst sub_from.simps) simp
qed

lemma re_sub_no_match: "re_search ic r t = None \<Longrightarrow> re_sub ic r repl t = t"
  by (simp add: re_search_def re_sub_def sub_from_no_match)

lemma ellipsis3_old_tts: "re_search True OLD_TTS_RE (u ''Servir...'') = None"
  by (simp add: OLD_TTS_RE_def char_ev rx_ev)

lemma ellipsis3_tts_text: "re_search True TTS_TEXT_RE (u ''Servir...'') = None"
  by (simp add: TTS_TEXT_RE_def char_ev rx_ev)

lemma ellipsis3_in_thermomix: "re_search True IN_THERMOMIX_RE (u ''Servir...'') = None"
  by (simp add: IN_THERMOMIX_RE_def char_ev rx_ev)

lemma ellipsis3_of_thermomix: "re_search True OF_THERMOMIX_RE (u ''Servir...'') = None"
  by (simp add: OF_THERMOMIX_RE_def char_ev rx_ev)

lemma ellipsis3_spaces: "re_search False more_spaces (u ''Servir...'') = None"
  by (simp add: char_ev rx_ev)

lemma ellipsis3_strip: "py_strip (u ''Servir...'') = u ''Servir...''"
  by (simp add: py_strip_def char_ev)

lemma ellipsis2_old_tts: "re_search True OLD_TTS_RE (u ''Servir..'') = None"
  by (simp add: OLD_TTS_RE_def char_ev rx_ev)

lemma ellipsis2_tts_text: "re_search True TTS_TEXT_RE (u ''Servir..'') = None"
  by (simp add: TTS_TEXT_RE_def char_ev rx_ev)

lemma ellipsis2_in_thermomix: "re_search True IN_THERMOMIX_RE (u ''Servir..'') = None"
  by (simp add: IN_THERMOMIX_RE_def char_ev rx_ev)

lemma ellipsis2_of_thermomix: "re_search True OF_THERMOMIX_RE (u ''Servir..'') = None"
  by (simp add: OF_THERMOMIX_RE_def char_ev rx_ev)

lemma ellipsis2_spaces: "re_search False more_spaces (u ''Servir..'') = None"
  by (simp add: char_ev rx_ev)

lemma ellipsis2_strip: "py_strip (u ''Servir..'') = u ''Servir..''"
  by (simp add: py_strip_def char_ev)

lemma ellipsis3_dots: "re_sub False TWO_DOTS_RE (u ''.'') (u ''Servir...'') = u ''Servir..''"
  by (simp add: TWO_DOTS_RE_def sub_ev char_ev rx_ev)

lemma ellipsis2_dots: "re_sub False TWO_DOTS_RE (u ''.'') (u ''Servir..'') = u ''Servir.''"
  by (simp add: TWO_DOTS_RE_def sub_ev char_ev rx_ev)

lemma ellipsis3_clean: "clean_description (u ''Servir...'') = u ''Servir..''"
  unfolding clean_description_def Let_def
  by (simp only: re_sub_no_match [OF ellipsis3_old_tts] re_sub_no_match [OF ellipsis3_tts_text]
      re_sub_no_match [OF ellipsis3_in_thermomix] re_sub_no_match [OF ellipsis3_of_thermomix]
      re_sub_no_match [OF ellipsis3_spaces] ellipsis3_strip ellipsis3_dots)

lemma ellipsis2_clean: "clean_description (u ''Servir..'') = u ''Servir.''"
  unfolding clean_description_def Let_def
  by (simp only: re_sub_no_match [OF ellipsis2_old_tts] re_sub_no_match [OF ellipsis2_tts_text]
      re_sub_no_match [OF ellipsis2_in_thermomix] re_sub_no_match [OF ellipsis2_of_thermomix]
      re_sub_no_match [OF ellipsis2_spaces] ellipsis2_strip ellipsis2_dots)

text \<open>
  C6 fails: \<open>clean_description\<close> is not idempotent.  Each pattern is substituted in one
  pass, and the last substitution, which turns two periods at the end into one, leaves
  two periods behind when the text ends in three: "Servir..." gives "Servir..", and
  cleaning that gives "Servir.".
\<close>

theorem clean_not_idempotent_counterexample:
  "clean_description ellipsis_step = u ''Servir..''
   \<and> clean_description (clean_description ellipsis_step) = u ''Servir.''
   \<and> clean_description (clean_description ellipsis_step) \<noteq> clean_description ellipsis_step"
  by (simp add: ellipsis_step_def ellipsis3_clean ellipsis2_clean) (simp add: u_def)

end
